theory Spec2Isabelle
  imports Complex_Main
begin

section \<open>Relational schema\<close>

text \<open>
  The tables of the schema, with the columns the modelled routes and triggers read or
  write. Identifiers are SERIAL keys, dates are day numbers, timestamps are clock
  readings. Columns that the schema leaves nullable but that every statement of the
  application fills (\<open>current_occupancy\<close>, \<open>is_active\<close>, \<open>is_available\<close>, \<open>status\<close>,
  \<open>priority\<close>) carry no NULL here.
\<close>

datatype gender_type = Male | Female | Other

record hostel =
  h_id :: nat
  gender_allowed :: gender_type

record room =
  r_id :: nat
  hostel_id :: nat
  capacity :: int
  current_occupancy :: int
  is_available :: bool

record student =
  s_id :: nat
  gender :: gender_type
  s_is_active :: bool

record allocation =
  a_id :: nat
  student_id :: nat
  room_id :: nat
  allocation_date :: nat
  expected_checkout :: "nat option"
  actual_checkout :: "nat option"
  is_active :: bool
  a_notes :: "string option"

datatype complaint_status = Open | Assigned | In_progress | Resolved | Closed

datatype complaint_category =
  Electrical | Plumbing | Furniture | Cleaning | Pest_control | Internet | Security | Other_category

record staff =
  ms_id :: nat
  ms_is_available :: bool

record complaint =
  c_id :: nat
  c_student_id :: nat
  c_room_id :: nat
  category :: complaint_category
  title :: string
  description :: string
  status :: complaint_status
  priority :: int
  assigned_staff_id :: "nat option"
  resolution_notes :: "string option"
  created_at :: nat
  assigned_at :: "nat option"
  resolved_at :: "nat option"
  closed_at :: "nat option"
  updated_at :: nat

text \<open>The rows of complaint_logs are only ever appended; their SERIAL id is never read.\<close>

record complaint_log =
  complaint_id :: nat
  old_status :: "complaint_status option"
  new_status :: complaint_status
  changed_by :: string
  l_notes :: "string option"
  changed_at :: nat

record db =
  hostels :: "hostel list"
  rooms :: "room list"
  students :: "student list"
  allocations :: "allocation list"
  hostels_id_seq :: nat
  rooms_id_seq :: nat
  students_id_seq :: nat
  allocations_id_seq :: nat
  maintenance_staff :: "staff list"
  complaints :: "complaint list"
  complaint_logs :: "complaint_log list"
  complaints_id_seq :: nat
  app_current_user :: "string option"

definition empty_db :: db where
  "empty_db = \<lparr>hostels = [], rooms = [], students = [], allocations = [],
     hostels_id_seq = 1, rooms_id_seq = 1, students_id_seq = 1, allocations_id_seq = 1,
     maintenance_staff = [], complaints = [], complaint_logs = [], complaints_id_seq = 1,
     app_current_user = None\<rparr>"

text \<open>
  What makes a statement fail: an exception raised by a trigger, or a violated
  constraint (named as in the schema).
\<close>

datatype db_error =
    RaiseException string
  | CheckViolation string
  | UniqueViolation string
  | ForeignKeyViolation string
  | ValueTooLong string

definition first_violation :: "('a \<Rightarrow> db_error option) \<Rightarrow> 'a list \<Rightarrow> db_error option" where
  "first_violation chk xs = (case List.map_filter chk xs of [] \<Rightarrow> None | e # _ \<Rightarrow> Some e)"

subsection \<open>Rooms\<close>

text \<open>
  The CHECK constraints of the rooms table:
  \<^verbatim>\<open>capacity INTEGER NOT NULL CHECK (capacity > 0 AND capacity <= 10),
  current_occupancy INTEGER DEFAULT 0 CHECK (current_occupancy >= 0),
  CONSTRAINT check_occupancy CHECK (current_occupancy <= capacity)\<close>
\<close>

definition rooms_check :: "room \<Rightarrow> db_error option" where
  "rooms_check r =
     (if \<not> (0 < capacity r \<and> capacity r \<le> 10) then Some (CheckViolation ''rooms_capacity_check'')
      else if \<not> 0 \<le> current_occupancy r
        then Some (CheckViolation ''rooms_current_occupancy_check'')
      else if \<not> current_occupancy r \<le> capacity r then Some (CheckViolation ''check_occupancy'')
      else None)"

text \<open>
  \<^verbatim>\<open>UPDATE rooms SET ... WHERE ...\<close>: every row written must pass the CHECK
  constraints, otherwise the statement fails and writes nothing.
\<close>

definition update_rooms :: "(room \<Rightarrow> bool) \<Rightarrow> (room \<Rightarrow> room) \<Rightarrow> db \<Rightarrow> db_error + db" where
  "update_rooms P f d =
     (case first_violation rooms_check (map f (filter P (rooms d))) of
        Some e \<Rightarrow> Inl e
      | None \<Rightarrow> Inr (d\<lparr>rooms := map (\<lambda>r. if P r then f r else r) (rooms d)\<rparr>))"

text \<open>
  The rows that populate the database: \<^verbatim>\<open>INSERT INTO hostels\<close>,
  \<^verbatim>\<open>INSERT INTO rooms\<close> (current_occupancy takes its default 0) and
  \<^verbatim>\<open>INSERT INTO students\<close> (is_active takes its default TRUE).
\<close>

definition insert_hostel :: "gender_type \<Rightarrow> db \<Rightarrow> db" where
  "insert_hostel g d =
     d\<lparr>hostels := hostels d @ [\<lparr>h_id = hostels_id_seq d, gender_allowed = g\<rparr>],
       hostels_id_seq := Suc (hostels_id_seq d)\<rparr>"

definition insert_room :: "nat \<Rightarrow> int \<Rightarrow> db \<Rightarrow> (db_error + room) \<times> db" where
  "insert_room hid cap d =
     (let new = \<lparr>r_id = rooms_id_seq d, hostel_id = hid, capacity = cap,
                 current_occupancy = 0, is_available = True\<rparr>;
          d0 = d\<lparr>rooms_id_seq := Suc (rooms_id_seq d)\<rparr>
      in case rooms_check new of
           Some e \<Rightarrow> (Inl e, d0)
         | None \<Rightarrow>
             if \<exists>r \<in> set (rooms d). r_id r = r_id new
               then (Inl (UniqueViolation ''rooms_pkey''), d0)
             else if \<not> (\<exists>h \<in> set (hostels d). h_id h = hid)
               then (Inl (ForeignKeyViolation ''fk_room_hostel''), d0)
             else (Inr new, d0\<lparr>rooms := rooms d @ [new]\<rparr>))"

definition insert_student :: "gender_type \<Rightarrow> db \<Rightarrow> db" where
  "insert_student g d =
     d\<lparr>students := students d @ [\<lparr>s_id = students_id_seq d, gender = g, s_is_active = True\<rparr>],
       students_id_seq := Suc (students_id_seq d)\<rparr>"

subsection \<open>Trigger 1: room capacity\<close>

text \<open>
  The trigger function \<open>check_room_capacity\<close> runs BEFORE INSERT OR UPDATE on
  allocations, for each row. It first reads the room joined with its hostel:
  \<^verbatim>\<open>SELECT r.capacity, r.current_occupancy, ... INTO v_capacity, v_current_occupancy, ...
  FROM rooms r JOIN hostels h ON r.hostel_id = h.id WHERE r.id = NEW.room_id;\<close>
  When no row is found the variables are NULL and the comparison
  \<open>v_current_occupancy >= v_capacity\<close> is not true.
\<close>

datatype tg_op = TG_INSERT | TG_UPDATE

definition trigger_room :: "nat \<Rightarrow> db \<Rightarrow> room option" where
  "trigger_room rid d =
     List.find (\<lambda>r. r_id r = rid \<and> (\<exists>h \<in> set (hostels d). h_id h = hostel_id r)) (rooms d)"

definition at_full_capacity :: "nat \<Rightarrow> db \<Rightarrow> bool" where
  "at_full_capacity rid d =
     (case trigger_room rid d of None \<Rightarrow> False | Some r \<Rightarrow> capacity r \<le> current_occupancy r)"

definition increment_occupancy :: "room \<Rightarrow> room" where
  "increment_occupancy r = r\<lparr>current_occupancy := current_occupancy r + 1\<rparr>"

text \<open>\<^verbatim>\<open>current_occupancy = GREATEST(0, current_occupancy - 1)\<close>\<close>

definition decrement_occupancy :: "room \<Rightarrow> room" where
  "decrement_occupancy r = r\<lparr>current_occupancy := max 0 (current_occupancy r - 1)\<rparr>"

definition check_room_capacity :: "tg_op \<Rightarrow> allocation \<Rightarrow> allocation \<Rightarrow> db \<Rightarrow> db_error + db" where
  "check_room_capacity op old new d =
     (if op = TG_INSERT \<and> is_active new then
        (if at_full_capacity (room_id new) d
           then Inl (RaiseException ''Room is at full capacity. Cannot allocate more students.'')
         else update_rooms (\<lambda>r. r_id r = room_id new) increment_occupancy d)
      else if op = TG_UPDATE then
        (if is_active old \<and> \<not> is_active new then
           update_rooms (\<lambda>r. r_id r = room_id new) decrement_occupancy d
         else if \<not> is_active old \<and> is_active new then
           (if at_full_capacity (room_id new) d
              then Inl (RaiseException ''Room is at full capacity. Cannot reactivate allocation.'')
            else update_rooms (\<lambda>r. r_id r = room_id new) increment_occupancy d)
         else Inr d)
      else Inr d)"

subsection \<open>Allocations\<close>

text \<open>
  \<^verbatim>\<open>CONSTRAINT valid_checkout_dates
    CHECK (expected_checkout IS NULL OR expected_checkout >= allocation_date)\<close>
\<close>

definition allocations_check :: "allocation \<Rightarrow> db_error option" where
  "allocations_check a =
     (case expected_checkout a of
        None \<Rightarrow> None
      | Some e \<Rightarrow> if allocation_date a \<le> e then None
                  else Some (CheckViolation ''valid_checkout_dates''))"

text \<open>
  \<^verbatim>\<open>CREATE UNIQUE INDEX idx_one_active_allocation ON allocations(student_id)
    WHERE is_active = TRUE;\<close>
  A written row collides when it is active and the table then holds more than one
  active row of its student.
\<close>

definition active_rows_of :: "nat \<Rightarrow> allocation list \<Rightarrow> allocation list" where
  "active_rows_of sid rows = filter (\<lambda>a. student_id a = sid \<and> is_active a) rows"

definition idx_one_active_allocation_violated :: "allocation list \<Rightarrow> allocation list \<Rightarrow> bool" where
  "idx_one_active_allocation_violated written rows =
     (\<exists>n \<in> set written. is_active n \<and> 1 < length (active_rows_of (student_id n) rows))"

text \<open>
  \<^verbatim>\<open>INSERT INTO allocations (student_id, room_id, allocation_date, expected_checkout,
    notes, is_active) VALUES ($1, $2, CURRENT_DATE, $3, $4, TRUE) RETURNING *\<close>
  The id is drawn from the sequence (which is not rolled back), the BEFORE trigger runs,
  then the constraints are checked. A failure undoes the trigger's write as well.
\<close>

definition insert_allocation ::
  "nat \<Rightarrow> nat \<Rightarrow> nat \<Rightarrow> nat option \<Rightarrow> string option \<Rightarrow> db \<Rightarrow> (db_error + allocation) \<times> db" where
  "insert_allocation sid rid today expected nts d =
     (let new = \<lparr>a_id = allocations_id_seq d, student_id = sid, room_id = rid,
                 allocation_date = today, expected_checkout = expected,
                 actual_checkout = None, is_active = True, a_notes = nts\<rparr>;
          d0 = d\<lparr>allocations_id_seq := Suc (allocations_id_seq d)\<rparr>
      in case check_room_capacity TG_INSERT new new d0 of
           Inl e \<Rightarrow> (Inl e, d0)
         | Inr d1 \<Rightarrow>
             (case allocations_check new of
                Some e \<Rightarrow> (Inl e, d0)
              | None \<Rightarrow>
                  if \<exists>a \<in> set (allocations d). a_id a = a_id new
                    then (Inl (UniqueViolation ''allocations_pkey''), d0)
                  else if idx_one_active_allocation_violated [new] (allocations d @ [new])
                    then (Inl (UniqueViolation ''idx_one_active_allocation''), d0)
                  else if \<not> (\<exists>s \<in> set (students d). s_id s = sid)
                    then (Inl (ForeignKeyViolation ''fk_allocation_student''), d0)
                  else if \<not> (\<exists>r \<in> set (rooms d). r_id r = rid)
                    then (Inl (ForeignKeyViolation ''fk_allocation_room''), d0)
                  else (Inr new, d1\<lparr>allocations := allocations d @ [new]\<rparr>)))"

text \<open>
  \<^verbatim>\<open>UPDATE allocations SET ... WHERE ... RETURNING *\<close>: the BEFORE trigger runs for
  each row of the WHERE clause, in turn, each run seeing the rooms as the runs before it
  left them. Any failure undoes the whole statement.
\<close>

fun update_allocations_rows ::
  "(allocation \<Rightarrow> bool) \<Rightarrow> (allocation \<Rightarrow> allocation) \<Rightarrow> allocation list \<Rightarrow> db
     \<Rightarrow> db_error + (allocation list \<times> db)" where
  "update_allocations_rows P f [] d = Inr ([], d)"
| "update_allocations_rows P f (a # rest) d =
     (if P a then
        (case check_room_capacity TG_UPDATE a (f a) d of
           Inl e \<Rightarrow> Inl e
         | Inr d1 \<Rightarrow>
             (case allocations_check (f a) of
                Some e \<Rightarrow> Inl e
              | None \<Rightarrow>
                  (case update_allocations_rows P f rest d1 of
                     Inl e \<Rightarrow> Inl e
                   | Inr (rest', d2) \<Rightarrow> Inr (f a # rest', d2))))
      else
        (case update_allocations_rows P f rest d of
           Inl e \<Rightarrow> Inl e
         | Inr (rest', d2) \<Rightarrow> Inr (a # rest', d2)))"

definition update_allocations ::
  "(allocation \<Rightarrow> bool) \<Rightarrow> (allocation \<Rightarrow> allocation) \<Rightarrow> db \<Rightarrow> db_error + (allocation list \<times> db)" where
  "update_allocations P f d =
     (case update_allocations_rows P f (allocations d) d of
        Inl e \<Rightarrow> Inl e
      | Inr (rows', d') \<Rightarrow>
          if idx_one_active_allocation_violated (map f (filter P (allocations d))) rows'
            then Inl (UniqueViolation ''idx_one_active_allocation'')
          else Inr (map f (filter P (allocations d)), d'\<lparr>allocations := rows'\<rparr>))"

text \<open>\<^verbatim>\<open>SET is_active = FALSE, actual_checkout = CURRENT_DATE\<close>\<close>

definition deactivate :: "nat \<Rightarrow> allocation \<Rightarrow> allocation" where
  "deactivate today a = a\<lparr>is_active := False, actual_checkout := Some today\<rparr>"

section \<open>Allocation routes\<close>

text \<open>
  Every \<open>query\<close> call of a route is one statement in its own implicit transaction. A
  route is modelled as a run: its response together with the database states it
  leaves behind, one after each write statement it executes. The state after the
  route is the last of them, or the state before when it wrote nothing.
\<close>

datatype api_error =
    MissingRequiredFields
  | StudentNotFoundOrInactive
  | RoomNotFoundOrUnavailable
  | RoomFull
  | GenderMismatch
  | InvalidId
  | AllocationNotFound
  | AlreadyInactive
  | StudentNotFound
  | NoFieldsToUpdate
  | InvalidCategory
  | InvalidPriority
  | RoomNotFound
  | ComplaintNotFound
  | InvalidStatus
  | MissingAssignment
  | StaffNotFoundOrUnavailable
  | InternalServerError db_error

definition final_state :: "db \<Rightarrow> ('a \<times> db list) \<Rightarrow> ('a \<times> db)" where
  "final_state d run = (fst run, last (d # snd run))"

text \<open>JavaScript truthiness of an id read from the request body.\<close>

fun truthy_id :: "nat option \<Rightarrow> bool" where
  "truthy_id None = False"
| "truthy_id (Some n) = (n \<noteq> 0)"

fun id_value :: "nat option \<Rightarrow> nat" where
  "id_value None = 0"
| "id_value (Some n) = n"

text \<open>\<open>notes || null\<close>: the empty string is falsy.\<close>

fun or_null :: "string option \<Rightarrow> string option" where
  "or_null None = None"
| "or_null (Some s) = (if s = [] then None else Some s)"

record allocation_body =
  b_student_id :: "nat option"
  b_room_id :: "nat option"
  b_expected_checkout :: "nat option"
  b_notes :: "string option"

text \<open>
  POST /api/allocations. The room query joins the hostel:
  \<^verbatim>\<open>SELECT r.id, r.capacity, r.current_occupancy, h.gender_allowed FROM rooms r
  INNER JOIN hostels h ON r.hostel_id = h.id WHERE r.id = $1 AND r.is_available = TRUE\<close>
\<close>

definition roomCheck :: "nat \<Rightarrow> db \<Rightarrow> (room \<times> hostel) list" where
  "roomCheck rid d =
     concat (map (\<lambda>r. map (\<lambda>h. (r, h)) (filter (\<lambda>h. hostel_id r = h_id h) (hostels d)))
                 (filter (\<lambda>r. r_id r = rid \<and> is_available r) (rooms d)))"

definition studentCheck :: "nat \<Rightarrow> db \<Rightarrow> student list" where
  "studentCheck sid d = filter (\<lambda>s. s_id s = sid \<and> s_is_active s) (students d)"

definition POST_allocations_run ::
  "allocation_body \<Rightarrow> nat \<Rightarrow> db \<Rightarrow> (api_error + allocation) \<times> db list" where
  "POST_allocations_run body today d =
     (if \<not> truthy_id (b_student_id body) \<or> \<not> truthy_id (b_room_id body)
        then (Inl MissingRequiredFields, [])
      else
        let sid = id_value (b_student_id body); rid = id_value (b_room_id body) in
        case studentCheck sid d of
          [] \<Rightarrow> (Inl StudentNotFoundOrInactive, [])
        | stu # _ \<Rightarrow>
            (case roomCheck rid d of
               [] \<Rightarrow> (Inl RoomNotFoundOrUnavailable, [])
             | (rm, h) # _ \<Rightarrow>
                 if capacity rm \<le> current_occupancy rm then (Inl RoomFull, [])
                 else if gender_allowed h \<noteq> Other \<and> gender stu \<noteq> gender_allowed h
                   then (Inl GenderMismatch, [])
                 else
                   (case (if active_rows_of sid (allocations d) \<noteq> []
                            then update_allocations (\<lambda>a. student_id a = sid \<and> is_active a)
                                   (deactivate today) d
                          else Inr ([], d)) of
                      Inl e \<Rightarrow> (Inl (InternalServerError e), [])
                    | Inr (_, d1) \<Rightarrow>
                        (case insert_allocation sid rid today (b_expected_checkout body)
                                (or_null (b_notes body)) d1 of
                           (Inl e, d2) \<Rightarrow> (Inl (InternalServerError e), [d1, d2])
                         | (Inr row, d2) \<Rightarrow>
                             (case update_rooms (\<lambda>r. r_id r = rid) increment_occupancy d2 of
                                Inl e \<Rightarrow> (Inl (InternalServerError e), [d1, d2])
                              | Inr d3 \<Rightarrow> (Inr row, [d1, d2, d3]))))))"

definition POST_allocations ::
  "allocation_body \<Rightarrow> nat \<Rightarrow> db \<Rightarrow> (api_error + allocation) \<times> db" where
  "POST_allocations body today d = final_state d (POST_allocations_run body today d)"

text \<open>
  DELETE /api/allocations/[id] (checkout). The path parameter is given as
  \<open>parseInt\<close> left it: \<open>None\<close> stands for NaN.
\<close>

definition DELETE_allocation_run ::
  "nat option \<Rightarrow> nat \<Rightarrow> db \<Rightarrow> (api_error + allocation list) \<times> db list" where
  "DELETE_allocation_run param today d =
     (case param of
        None \<Rightarrow> (Inl InvalidId, [])
      | Some allocationId \<Rightarrow>
          (case filter (\<lambda>a. a_id a = allocationId) (allocations d) of
             [] \<Rightarrow> (Inl AllocationNotFound, [])
           | existing # _ \<Rightarrow>
               if \<not> is_active existing then (Inl AlreadyInactive, [])
               else
                 (case update_allocations (\<lambda>a. a_id a = allocationId) (deactivate today) d of
                    Inl e \<Rightarrow> (Inl (InternalServerError e), [])
                  | Inr (result, d1) \<Rightarrow>
                      (case update_rooms (\<lambda>r. r_id r = room_id existing) decrement_occupancy d1 of
                         Inl e \<Rightarrow> (Inl (InternalServerError e), [d1])
                       | Inr d2 \<Rightarrow> (Inr (take 1 result), [d1, d2])))))"

definition DELETE_allocation ::
  "nat option \<Rightarrow> nat \<Rightarrow> db \<Rightarrow> (api_error + allocation list) \<times> db" where
  "DELETE_allocation param today d = final_state d (DELETE_allocation_run param today d)"

text \<open>
  PUT /api/allocations/[id] writes \<open>expected_checkout\<close> and \<open>notes\<close>, each only when the
  body defines it (\<open>None\<close>: undefined; \<open>Some None\<close>: null).
\<close>

definition set_fields :: "nat option option \<Rightarrow> string option option \<Rightarrow> allocation \<Rightarrow> allocation" where
  "set_fields ec nts a =
     (let a1 = (case ec of None \<Rightarrow> a | Some v \<Rightarrow> a\<lparr>expected_checkout := v\<rparr>)
      in case nts of None \<Rightarrow> a1 | Some v \<Rightarrow> a1\<lparr>a_notes := v\<rparr>)"

definition PUT_allocation_run ::
  "nat option \<Rightarrow> nat option option \<Rightarrow> string option option \<Rightarrow> db
     \<Rightarrow> (api_error + allocation list) \<times> db list" where
  "PUT_allocation_run param ec nts d =
     (case param of
        None \<Rightarrow> (Inl InvalidId, [])
      | Some allocationId \<Rightarrow>
          if ec = None \<and> nts = None then (Inl NoFieldsToUpdate, [])
          else
            (case update_allocations (\<lambda>a. a_id a = allocationId) (set_fields ec nts) d of
               Inl e \<Rightarrow> (Inl (InternalServerError e), [])
             | Inr (result, d1) \<Rightarrow>
                 if result = [] then (Inl AllocationNotFound, [d1])
                 else (Inr (take 1 result), [d1])))"

text \<open>
  DELETE /api/students/[id]: the soft delete, followed by the deactivation of the
  student's active allocation.
\<close>

definition DELETE_student_run ::
  "nat option \<Rightarrow> nat \<Rightarrow> db \<Rightarrow> (api_error + student list) \<times> db list" where
  "DELETE_student_run param today d =
     (case param of
        None \<Rightarrow> (Inl InvalidId, [])
      | Some studentId \<Rightarrow>
          (let d1 = d\<lparr>students := map (\<lambda>s. if s_id s = studentId then s\<lparr>s_is_active := False\<rparr> else s)
                                       (students d)\<rparr>;
               result = map (\<lambda>s. s\<lparr>s_is_active := False\<rparr>)
                          (filter (\<lambda>s. s_id s = studentId) (students d))
           in if result = [] then (Inl StudentNotFound, [d1])
              else
                (case update_allocations (\<lambda>a. student_id a = studentId \<and> is_active a)
                        (deactivate today) d1 of
                   Inl e \<Rightarrow> (Inl (InternalServerError e), [d1])
                 | Inr (_, d2) \<Rightarrow> (Inr (take 1 result), [d1, d2]))))"

section \<open>Complaints\<close>

subsection \<open>Trigger 2: the audit log and the timestamps\<close>

text \<open>Decimal text of an id, as the cast \<open>assigned_staff_id::TEXT\<close> gives it.\<close>

definition digit_char :: "nat \<Rightarrow> char" where
  "digit_char n = char_of (48 + n)"

function nat_to_text :: "nat \<Rightarrow> string" where
  "nat_to_text n =
     (if n < 10 then [digit_char n] else nat_to_text (n div 10) @ [digit_char (n mod 10)])"
  by pat_completeness auto
termination
  by (relation "measure id") auto

text \<open>\<^verbatim>\<open>COALESCE(current_setting('app.current_user', TRUE), 'system')\<close>\<close>

definition current_user_or_system :: "db \<Rightarrow> string" where
  "current_user_or_system d = (case app_current_user d of None \<Rightarrow> ''system'' | Some u \<Rightarrow> u)"

text \<open>
  The note of a logged status change:
  \<^verbatim>\<open>CASE WHEN NEW.status = 'assigned'
         THEN 'Assigned to staff ID: ' || COALESCE(NEW.assigned_staff_id::TEXT, 'N/A')
       WHEN NEW.status = 'resolved'
         THEN 'Resolution: ' || COALESCE(NEW.resolution_notes, 'No notes')
       ELSE NULL END\<close>
\<close>

definition change_note :: "complaint \<Rightarrow> string option" where
  "change_note new =
     (if status new = Assigned then
        Some (''Assigned to staff ID: '' @
              (case assigned_staff_id new of None \<Rightarrow> ''N/A'' | Some n \<Rightarrow> nat_to_text n))
      else if status new = Resolved then
        Some (''Resolution: '' @
              (case resolution_notes new of None \<Rightarrow> ''No notes'' | Some t \<Rightarrow> t))
      else None)"

text \<open>
  \<open>log_complaint_status_change\<close>, BEFORE UPDATE on complaints, for each row. It returns
  the row to be stored and the database with the log row appended.
\<close>

definition log_complaint_status_change :: "nat \<Rightarrow> complaint \<Rightarrow> complaint \<Rightarrow> db \<Rightarrow> complaint \<times> db" where
  "log_complaint_status_change now old new d =
     (let (new1, d1) =
        (if status old \<noteq> status new then
           (let d' = d\<lparr>complaint_logs := complaint_logs d @
                        [\<lparr>complaint_id = c_id new, old_status = Some (status old),
                          new_status = status new, changed_by = current_user_or_system d,
                          l_notes = change_note new, changed_at = now\<rparr>]\<rparr>
            in if status new = Assigned \<and> status old \<noteq> Assigned
                 then (new\<lparr>assigned_at := Some now\<rparr>, d')
               else if status new = Resolved \<and> status old \<noteq> Resolved
                 then (new\<lparr>resolved_at := Some now\<rparr>, d')
               else if status new = Closed \<and> status old \<noteq> Closed
                 then (new\<lparr>closed_at := Some now\<rparr>, d')
               else (new, d'))
         else (new, d))
      in (new1\<lparr>updated_at := now\<rparr>, d1))"

text \<open>\<open>log_complaint_creation\<close>, AFTER INSERT on complaints, for each row.\<close>

definition log_complaint_creation :: "nat \<Rightarrow> complaint \<Rightarrow> db \<Rightarrow> db" where
  "log_complaint_creation now new d =
     d\<lparr>complaint_logs := complaint_logs d @
         [\<lparr>complaint_id = c_id new, old_status = None, new_status = status new,
           changed_by = current_user_or_system d, l_notes = Some ''Complaint created'',
           changed_at = now\<rparr>]\<rparr>"

subsection \<open>Statements on complaints\<close>

text \<open>
  The constraints of a complaints row: the length of the title, the CHECK on the
  priority and the three foreign keys.
\<close>

definition complaints_check :: "complaint \<Rightarrow> db \<Rightarrow> db_error option" where
  "complaints_check c d =
     (if 200 < length (title c) then Some (ValueTooLong ''title'')
      else if \<not> (1 \<le> priority c \<and> priority c \<le> 5)
        then Some (CheckViolation ''complaints_priority_check'')
      else if \<not> (\<exists>s \<in> set (students d). s_id s = c_student_id c)
        then Some (ForeignKeyViolation ''fk_complaint_student'')
      else if \<not> (\<exists>r \<in> set (rooms d). r_id r = c_room_id c)
        then Some (ForeignKeyViolation ''fk_complaint_room'')
      else (case assigned_staff_id c of
              None \<Rightarrow> None
            | Some n \<Rightarrow>
                if \<exists>m \<in> set (maintenance_staff d). ms_id m = n then None
                else Some (ForeignKeyViolation ''fk_complaint_staff'')))"

text \<open>
  \<^verbatim>\<open>INSERT INTO complaints (student_id, room_id, category, title, description, priority,
    status) VALUES ($1, $2, $3, $4, $5, $6, 'open') RETURNING *\<close>
\<close>

definition insert_complaint ::
  "nat \<Rightarrow> nat \<Rightarrow> complaint_category \<Rightarrow> string \<Rightarrow> string \<Rightarrow> int \<Rightarrow> nat \<Rightarrow> db
     \<Rightarrow> (db_error + complaint) \<times> db" where
  "insert_complaint sid rid cat ttl descr prio now d =
     (let new = \<lparr>c_id = complaints_id_seq d, c_student_id = sid, c_room_id = rid,
                 category = cat, title = ttl, description = descr, status = Open,
                 priority = prio, assigned_staff_id = None, resolution_notes = None,
                 created_at = now, assigned_at = None, resolved_at = None, closed_at = None,
                 updated_at = now\<rparr>;
          d0 = d\<lparr>complaints_id_seq := Suc (complaints_id_seq d)\<rparr>
      in case complaints_check new d of
           Some e \<Rightarrow> (Inl e, d0)
         | None \<Rightarrow>
             if \<exists>c \<in> set (complaints d). c_id c = c_id new
               then (Inl (UniqueViolation ''complaints_pkey''), d0)
             else (Inr new, log_complaint_creation now new (d0\<lparr>complaints := complaints d @ [new]\<rparr>)))"

text \<open>
  \<^verbatim>\<open>UPDATE complaints SET ... WHERE id = $n RETURNING *\<close>. The SET list is built by the
  route from the fields of the request.
\<close>

datatype assignment =
    Set_status complaint_status
  | Set_assigned_staff_id "nat option"
  | Set_resolution_notes "string option"
  | Set_priority int

fun assign_column :: "complaint \<Rightarrow> assignment \<Rightarrow> complaint" where
  "assign_column c (Set_status st) = c\<lparr>status := st\<rparr>"
| "assign_column c (Set_assigned_staff_id v) = c\<lparr>assigned_staff_id := v\<rparr>"
| "assign_column c (Set_resolution_notes v) = c\<lparr>resolution_notes := v\<rparr>"
| "assign_column c (Set_priority p) = c\<lparr>priority := p\<rparr>"

definition apply_updates :: "assignment list \<Rightarrow> complaint \<Rightarrow> complaint" where
  "apply_updates updates c = foldl assign_column c updates"

fun update_complaints_rows ::
  "nat \<Rightarrow> nat \<Rightarrow> assignment list \<Rightarrow> complaint list \<Rightarrow> db \<Rightarrow> db_error + (complaint list \<times> db)" where
  "update_complaints_rows now cid updates [] d = Inr ([], d)"
| "update_complaints_rows now cid updates (c # rest) d =
     (if c_id c = cid then
        (let (new, d1) = log_complaint_status_change now c (apply_updates updates c) d
         in case complaints_check new d of
              Some e \<Rightarrow> Inl e
            | None \<Rightarrow>
                (case update_complaints_rows now cid updates rest d1 of
                   Inl e \<Rightarrow> Inl e
                 | Inr (rest', d2) \<Rightarrow> Inr (new # rest', d2)))
      else
        (case update_complaints_rows now cid updates rest d of
           Inl e \<Rightarrow> Inl e
         | Inr (rest', d2) \<Rightarrow> Inr (c # rest', d2)))"

definition update_complaints ::
  "nat \<Rightarrow> nat \<Rightarrow> assignment list \<Rightarrow> db \<Rightarrow> db_error + (complaint list \<times> db)" where
  "update_complaints now cid updates d =
     (case update_complaints_rows now cid updates (complaints d) d of
        Inl e \<Rightarrow> Inl e
      | Inr (rows', d') \<Rightarrow>
          Inr (filter (\<lambda>c. c_id c = cid) rows', d'\<lparr>complaints := rows'\<rparr>))"

section \<open>Complaint routes\<close>

text \<open>
  A field of a JSON request body: absent (\<open>undefined\<close>), \<open>null\<close>, or a value.
\<close>

datatype 'a field = Undefined | Null | Val 'a

fun truthy_text :: "string field \<Rightarrow> bool" where
  "truthy_text (Val s) = (s \<noteq> [])"
| "truthy_text _ = False"

fun truthy_num :: "nat field \<Rightarrow> bool" where
  "truthy_num (Val n) = (n \<noteq> 0)"
| "truthy_num _ = False"

fun field_value :: "'a field \<Rightarrow> 'a option" where
  "field_value (Val v) = Some v"
| "field_value _ = None"

definition status_text :: "complaint_status \<Rightarrow> string" where
  "status_text st =
     (case st of Open \<Rightarrow> ''open'' | Assigned \<Rightarrow> ''assigned'' | In_progress \<Rightarrow> ''in_progress''
      | Resolved \<Rightarrow> ''resolved'' | Closed \<Rightarrow> ''closed'')"

definition validStatuses :: "complaint_status list" where
  "validStatuses = [Open, Assigned, In_progress, Resolved, Closed]"

definition status_of_text :: "string \<Rightarrow> complaint_status option" where
  "status_of_text s = List.find (\<lambda>st. status_text st = s) validStatuses"

definition category_text :: "complaint_category \<Rightarrow> string" where
  "category_text c =
     (case c of Electrical \<Rightarrow> ''electrical'' | Plumbing \<Rightarrow> ''plumbing''
      | Furniture \<Rightarrow> ''furniture'' | Cleaning \<Rightarrow> ''cleaning''
      | Pest_control \<Rightarrow> ''pest_control'' | Internet \<Rightarrow> ''internet''
      | Security \<Rightarrow> ''security'' | Other_category \<Rightarrow> ''other'')"

definition validCategories :: "complaint_category list" where
  "validCategories =
     [Electrical, Plumbing, Furniture, Cleaning, Pest_control, Internet, Security, Other_category]"

definition category_of_text :: "string \<Rightarrow> complaint_category option" where
  "category_of_text s = List.find (\<lambda>c. category_text c = s) validCategories"

record complaint_body =
  cb_student_id :: "nat option"
  cb_room_id :: "nat option"
  cb_category :: "string field"
  cb_title :: "string field"
  cb_description :: "string field"
  cb_priority :: "int field"

text \<open>
  \<^verbatim>\<open>const finalPriority = priority || 3;\<close>
  The operator \<open>||\<close> takes its right operand whenever the left one is falsy: absent,
  null, or the number 0.
\<close>

fun finalPriority :: "int field \<Rightarrow> int" where
  "finalPriority (Val p) = (if p = 0 then 3 else p)"
| "finalPriority _ = 3"

fun text_value :: "string field \<Rightarrow> string" where
  "text_value (Val s) = s"
| "text_value _ = []"

text \<open>POST /api/complaints.\<close>

definition POST_complaints_run ::
  "complaint_body \<Rightarrow> nat \<Rightarrow> db \<Rightarrow> (api_error + complaint) \<times> db list" where
  "POST_complaints_run body now d =
     (if \<not> truthy_id (cb_student_id body) \<or> \<not> truthy_id (cb_room_id body)
         \<or> \<not> truthy_text (cb_category body) \<or> \<not> truthy_text (cb_title body)
         \<or> \<not> truthy_text (cb_description body)
        then (Inl MissingRequiredFields, [])
      else
        (case category_of_text (text_value (cb_category body)) of
           None \<Rightarrow> (Inl InvalidCategory, [])
         | Some cat \<Rightarrow>
             if finalPriority (cb_priority body) < 1 \<or> 5 < finalPriority (cb_priority body)
               then (Inl InvalidPriority, [])
             else if studentCheck (id_value (cb_student_id body)) d = []
               then (Inl StudentNotFoundOrInactive, [])
             else if filter (\<lambda>r. r_id r = id_value (cb_room_id body)) (rooms d) = []
               then (Inl RoomNotFound, [])
             else
               (case insert_complaint (id_value (cb_student_id body)) (id_value (cb_room_id body))
                       cat (text_value (cb_title body)) (text_value (cb_description body))
                       (finalPriority (cb_priority body)) now d of
                  (Inl e, d1) \<Rightarrow> (Inl (InternalServerError e), [d1])
                | (Inr row, d1) \<Rightarrow> (Inr row, [d1]))))"

definition POST_complaints :: "complaint_body \<Rightarrow> nat \<Rightarrow> db \<Rightarrow> (api_error + complaint) \<times> db" where
  "POST_complaints body now d = final_state d (POST_complaints_run body now d)"

record complaint_update_body =
  u_status :: "string field"
  u_assigned_staff_id :: "nat field"
  u_resolution_notes :: "string field"
  u_priority :: "int field"

text \<open>
  The status of the request, after
  \<^verbatim>\<open>if (status && !validStatuses.includes(status))\<close>: a falsy status is no request
  at all, an unknown one is refused.
\<close>

definition requested_status :: "string field \<Rightarrow> api_error + complaint_status option" where
  "requested_status f =
     (if truthy_text f then
        (case status_of_text (text_value f) of
           None \<Rightarrow> Inl InvalidStatus
         | Some st \<Rightarrow> Inr (Some st))
      else Inr None)"

definition staffCheck :: "nat \<Rightarrow> db \<Rightarrow> staff list" where
  "staffCheck n d = filter (\<lambda>m. ms_id m = n \<and> ms_is_available m) (maintenance_staff d)"

text \<open>\<open>priority < 1 || priority > 5\<close>, where \<open>null\<close> compares as the number 0.\<close>

fun priority_out_of_range :: "int field \<Rightarrow> bool" where
  "priority_out_of_range Undefined = False"
| "priority_out_of_range Null = True"
| "priority_out_of_range (Val p) = (p < 1 \<or> 5 < p)"

text \<open>The SET list, in the order in which the route pushes the columns.\<close>

definition build_updates :: "complaint \<Rightarrow> complaint_status option \<Rightarrow> complaint_update_body \<Rightarrow> assignment list" where
  "build_updates existing requested body =
     (case requested of
        None \<Rightarrow> []
      | Some st \<Rightarrow> if st \<noteq> status existing then [Set_status st] else [])
     @ (if u_assigned_staff_id body = Undefined then []
        else Set_assigned_staff_id (field_value (u_assigned_staff_id body))
             # (if truthy_num (u_assigned_staff_id body) \<and> status existing = Open
                   \<and> requested = None
                  then [Set_status Assigned] else []))
     @ (if u_resolution_notes body = Undefined then []
        else [Set_resolution_notes (field_value (u_resolution_notes body))])
     @ (case u_priority body of Val p \<Rightarrow> [Set_priority p] | _ \<Rightarrow> [])"

text \<open>PUT /api/complaints/[id].\<close>

definition PUT_complaint_run ::
  "nat option \<Rightarrow> complaint_update_body \<Rightarrow> nat \<Rightarrow> db \<Rightarrow> (api_error + complaint list) \<times> db list" where
  "PUT_complaint_run param body now d =
     (case param of
        None \<Rightarrow> (Inl InvalidId, [])
      | Some complaintId \<Rightarrow>
          (case filter (\<lambda>c. c_id c = complaintId) (complaints d) of
             [] \<Rightarrow> (Inl ComplaintNotFound, [])
           | existing # _ \<Rightarrow>
               (case requested_status (u_status body) of
                  Inl e \<Rightarrow> (Inl e, [])
                | Inr requested \<Rightarrow>
                    if requested = Some Assigned \<and> status existing \<noteq> Assigned
                       \<and> \<not> truthy_num (u_assigned_staff_id body)
                       \<and> \<not> truthy_id (assigned_staff_id existing)
                      then (Inl MissingAssignment, [])
                    else if (case u_assigned_staff_id body of
                               Val n \<Rightarrow> staffCheck n d = [] | _ \<Rightarrow> False)
                      then (Inl StaffNotFoundOrUnavailable, [])
                    else if priority_out_of_range (u_priority body)
                      then (Inl InvalidPriority, [])
                    else if build_updates existing requested body = []
                      then (Inl NoFieldsToUpdate, [])
                    else
                      (case update_complaints now complaintId
                              (build_updates existing requested body) d of
                         Inl e \<Rightarrow> (Inl (InternalServerError e), [])
                       | Inr (result, d1) \<Rightarrow> (Inr (take 1 result), [d1])))))"

definition PUT_complaint ::
  "nat option \<Rightarrow> complaint_update_body \<Rightarrow> nat \<Rightarrow> db \<Rightarrow> (api_error + complaint list) \<times> db" where
  "PUT_complaint param body now d = final_state d (PUT_complaint_run param body now d)"

text \<open>A row of maintenance_staff, as the seed script inserts it.\<close>

definition insert_staff :: "bool \<Rightarrow> db \<Rightarrow> db" where
  "insert_staff avail d =
     d\<lparr>maintenance_staff := maintenance_staff d @
         [\<lparr>ms_id = Suc (length (maintenance_staff d)), ms_is_available = avail\<rparr>]\<rparr>"

section \<open>Reachable states\<close>

text \<open>
  The reachable states: the empty database, the rows that populate it (the seed script
  inserts its allocations with a plain INSERT), and every state a route leaves behind,
  also the ones between two of its statements.
\<close>

inductive reachable :: "db \<Rightarrow> bool" where
  init: "reachable empty_db"
| hostel: "reachable d \<Longrightarrow> reachable (insert_hostel g d)"
| room: "reachable d \<Longrightarrow> reachable (snd (insert_room hid cap d))"
| student: "reachable d \<Longrightarrow> reachable (insert_student g d)"
| seed_allocation:
    "reachable d \<Longrightarrow> reachable (snd (insert_allocation sid rid day expected nts d))"
| assign: "reachable d \<Longrightarrow> d' \<in> set (snd (POST_allocations_run body today d)) \<Longrightarrow> reachable d'"
| checkout: "reachable d \<Longrightarrow> d' \<in> set (snd (DELETE_allocation_run param today d)) \<Longrightarrow> reachable d'"
| update: "reachable d \<Longrightarrow> d' \<in> set (snd (PUT_allocation_run param ec nts d)) \<Longrightarrow> reachable d'"
| student_delete:
    "reachable d \<Longrightarrow> d' \<in> set (snd (DELETE_student_run param today d)) \<Longrightarrow> reachable d'"
| staff_member: "reachable d \<Longrightarrow> reachable (insert_staff avail d)"
| complaint:
    "reachable d \<Longrightarrow> d' \<in> set (snd (POST_complaints_run cbody now d)) \<Longrightarrow> reachable d'"
| complaint_update:
    "reachable d \<Longrightarrow> d' \<in> set (snd (PUT_complaint_run param ubody now d)) \<Longrightarrow> reachable d'"

section \<open>Analytics read-model: percentages and rates\<close>

text \<open>
  The analytics routes divide parsed integers in JavaScript. A JavaScript division by
  zero does not throw: it yields \<open>NaN\<close> (for \<open>0 / 0\<close>) or an infinity. The model keeps
  these values apart from ordinary numbers. Finite doubles are idealised as exact
  rationals; the properties below concern the guard in front of the division only.
\<close>

datatype jsnum = Num rat | NaN | PosInfinity | NegInfinity

definition js_div :: "int \<Rightarrow> int \<Rightarrow> jsnum" where
  "js_div a b =
     (if b = 0 then (if a = 0 then NaN else if 0 < a then PosInfinity else NegInfinity)
      else Num (of_int a / of_int b))"

fun js_times :: "jsnum \<Rightarrow> rat \<Rightarrow> jsnum" where
  "js_times (Num x) k = Num (x * k)"
| "js_times NaN k = NaN"
| "js_times PosInfinity k = (if k = 0 then NaN else if 0 < k then PosInfinity else NegInfinity)"
| "js_times NegInfinity k = (if k = 0 then NaN else if 0 < k then NegInfinity else PosInfinity)"

fun js_over :: "jsnum \<Rightarrow> rat \<Rightarrow> jsnum" where
  "js_over (Num x) k =
     (if k = 0 then (if x = 0 then NaN else if 0 < x then PosInfinity else NegInfinity)
      else Num (x / k))"
| "js_over NaN k = NaN"
| "js_over PosInfinity k = (if 0 \<le> k then PosInfinity else NegInfinity)"
| "js_over NegInfinity k = (if 0 \<le> k then NegInfinity else PosInfinity)"

text \<open>\<open>Math.round\<close>: the nearest integer, halves towards plus infinity.\<close>

fun js_round :: "jsnum \<Rightarrow> jsnum" where
  "js_round (Num x) = Num (of_int \<lfloor>x + 1 / 2\<rfloor>)"
| "js_round v = v"

text \<open>
  GET /api/analytics/categories:
  \<^verbatim>\<open>percentage: totalComplaints > 0 ? Math.round((total / totalComplaints) * 100) : 0\<close>
\<close>

definition percentage :: "int \<Rightarrow> int \<Rightarrow> jsnum" where
  "percentage cnt totalComplaints =
     (if 0 < totalComplaints then js_round (js_times (js_div cnt totalComplaints) 100)
      else Num 0)"

text \<open>
  The rows of the grouped query are (category, total_complaints); the handler sums
  the counts with \<open>reduce\<close> and maps every row to its percentage.
\<close>

definition categories_GET :: "(string \<times> int) list \<Rightarrow> (string \<times> int \<times> jsnum) list" where
  "categories_GET rows =
     (let totalComplaints = foldl (\<lambda>sum row. sum + snd row) 0 rows
      in map (\<lambda>row. (fst row, snd row, percentage (snd row) totalComplaints)) rows)"

text \<open>
  GET /api/analytics/rooms, used for the overall rate and for every by_type and
  by_floor row:
  \<^verbatim>\<open>rate: cap > 0 ? Math.round((occ / cap) * 100 * 100) / 100 : 0\<close>
\<close>

definition occupancy_rate :: "int \<Rightarrow> int \<Rightarrow> jsnum" where
  "occupancy_rate occ cap =
     (if 0 < cap
      then js_over (js_round (js_times (js_times (js_div occ cap) 100) 100)) 100
      else Num 0)"

text \<open>
  GET /api/analytics/trends computes the resolution rate in SQL, where a division by
  zero raises an error:
  \<^verbatim>\<open>CASE WHEN COUNT(*) > 0
       THEN ROUND(COUNT(*) FILTER (...)::numeric / COUNT(*) * 100, 2) ELSE 0 END\<close>
\<close>

datatype sql_error = DivisionByZero

definition sql_div :: "rat \<Rightarrow> rat \<Rightarrow> sql_error + rat" where
  "sql_div a b = (if b = 0 then Inl DivisionByZero else Inr (a / b))"

text \<open>\<open>ROUND(x, 2)\<close> on numeric: two decimals, halves away from zero.\<close>

definition sql_round2 :: "rat \<Rightarrow> rat" where
  "sql_round2 x =
     (if 0 \<le> x then of_int \<lfloor>x * 100 + 1 / 2\<rfloor> / 100
      else - (of_int \<lfloor>- x * 100 + 1 / 2\<rfloor> / 100))"

definition resolution_rate :: "int \<Rightarrow> int \<Rightarrow> sql_error + rat" where
  "resolution_rate resolved_count cnt =
     (if 0 < cnt
      then (case sql_div (of_int resolved_count) (of_int cnt) of
              Inl e \<Rightarrow> Inl e
            | Inr q \<Rightarrow> Inr (sql_round2 (q * 100)))
      else Inr 0)"

text \<open>
  GET /api/analytics/resolution computes its overall resolution rate in JavaScript:
  \<^verbatim>\<open>resolution_rate: totalComplaints > 0
    ? Math.round((resolvedComplaints / totalComplaints) * 100) : 0\<close>
\<close>

definition overall_resolution_rate :: "int \<Rightarrow> int \<Rightarrow> jsnum" where
  "overall_resolution_rate resolvedComplaints totalComplaints =
     (if 0 < totalComplaints
      then js_round (js_times (js_div resolvedComplaints totalComplaints) 100)
      else Num 0)"

text \<open>
  GET /api/analytics/hostels:
  \<^verbatim>\<open>complaints_per_room: totalRooms > 0
    ? parseFloat((totalComplaints / totalRooms).toFixed(2)) : 0\<close>
  and, in its query, with \<open>SUM(r.capacity)\<close> NULL for a hostel without rooms:
  \<^verbatim>\<open>CASE WHEN SUM(r.capacity) > 0
       THEN ROUND((SUM(r.current_occupancy)::numeric / SUM(r.capacity)) * 100, 2)
       ELSE 0 END as occupancy_rate\<close>
\<close>

text \<open>\<open>toFixed(2)\<close> read back by \<open>parseFloat\<close>: two decimals, halves upwards.\<close>

fun js_toFixed2 :: "jsnum \<Rightarrow> jsnum" where
  "js_toFixed2 (Num x) = Num (of_int \<lfloor>x * 100 + 1 / 2\<rfloor> / 100)"
| "js_toFixed2 v = v"

definition complaints_per_room :: "int \<Rightarrow> int \<Rightarrow> jsnum" where
  "complaints_per_room totalComplaints totalRooms =
     (if 0 < totalRooms then js_toFixed2 (js_div totalComplaints totalRooms) else Num 0)"

definition hostel_occupancy_rate :: "int \<Rightarrow> int option \<Rightarrow> sql_error + rat" where
  "hostel_occupancy_rate sum_occupancy sum_capacity =
     (case sum_capacity of
        None \<Rightarrow> Inr 0
      | Some cap \<Rightarrow>
          if 0 < cap
          then (case sql_div (of_int sum_occupancy) (of_int cap) of
                  Inl e \<Rightarrow> Inl e
                | Inr q \<Rightarrow> Inr (sql_round2 (q * 100)))
          else Inr 0)"

section \<open>Invariants\<close>

text \<open>The occupancy bounds of every room.\<close>

definition occupancy_within_bounds :: "db \<Rightarrow> bool" where
  "occupancy_within_bounds d =
     (\<forall>r \<in> set (rooms d). 0 \<le> current_occupancy r \<and> current_occupancy r \<le> capacity r)"

text \<open>At most one active allocation row for every student.\<close>

definition one_active_per_student :: "db \<Rightarrow> bool" where
  "one_active_per_student d = (\<forall>sid. length (active_rows_of sid (allocations d)) \<le> 1)"

section \<open>Scenarios\<close>

text \<open>
  A database with one hostel for male students, two active male students and two
  rooms of capacity 3, built by the INSERT statements above.
\<close>

definition seed_db :: db where
  "seed_db = snd (insert_room 1 3 (snd (insert_room 1 3
               (insert_student Male (insert_student Male (insert_hostel Male empty_db))))))"

text \<open>The requests that assign student 1 to room 1 and to room 2.\<close>

definition body_1_A :: allocation_body where
  "body_1_A = \<lparr>b_student_id = Some 1, b_room_id = Some 1, b_expected_checkout = None,
                b_notes = None\<rparr>"

definition body_1_B :: allocation_body where
  "body_1_B = \<lparr>b_student_id = Some 1, b_room_id = Some 2, b_expected_checkout = None,
                b_notes = None\<rparr>"

text \<open>
  Students 1 and 2 both live in room 1, their allocations inserted as the seed script
  inserts them (a plain INSERT, counted by the trigger): occupancy 2, two active rows.
\<close>

definition shared_room_db :: db where
  "shared_room_db =
     snd (insert_allocation 2 1 100 None None (snd (insert_allocation 1 1 100 None None seed_db)))"

text \<open>
  Room 1 has capacity 1 and is taken by student 2; student 1 lives in room 2.
\<close>

definition full_room_db :: db where
  "full_room_db =
     snd (insert_allocation 1 2 100 None None (snd (insert_allocation 2 1 100 None None
       (snd (insert_room 1 3 (snd (insert_room 1 1
          (insert_student Male (insert_student Male (insert_hostel Male empty_db))))))))))"

definition occupancy_of :: "nat \<Rightarrow> db \<Rightarrow> int list" where
  "occupancy_of rid d = map current_occupancy (filter (\<lambda>r. r_id r = rid) (rooms d))"

text \<open>
  The seed database with five available members of staff, and the requests of a
  complaint's life: raised by student 1 at time 10, assigned to staff 5 at time 20,
  set back to open at time 30.
\<close>

definition complaints_db :: db where
  "complaints_db =
     insert_staff True (insert_staff True (insert_staff True (insert_staff True
       (insert_staff True seed_db))))"

definition new_complaint :: complaint_body where
  "new_complaint = \<lparr>cb_student_id = Some 1, cb_room_id = Some 1, cb_category = Val ''electrical'',
     cb_title = Val ''Fan'', cb_description = Val ''Fan is broken'', cb_priority = Val 2\<rparr>"

definition no_change :: complaint_update_body where
  "no_change = \<lparr>u_status = Undefined, u_assigned_staff_id = Undefined,
     u_resolution_notes = Undefined, u_priority = Undefined\<rparr>"

definition created_db :: db where
  "created_db = snd (POST_complaints new_complaint 10 complaints_db)"

definition assigned_db :: db where
  "assigned_db =
     snd (PUT_complaint (Some 1)
            (no_change\<lparr>u_status := Val ''assigned'', u_assigned_staff_id := Val 5\<rparr>) 20 created_db)"

definition reopened_db :: db where
  "reopened_db = snd (PUT_complaint (Some 1) (no_change\<lparr>u_status := Val ''open''\<rparr>) 30 assigned_db)"

definition the_complaint :: complaint where
  "the_complaint =
     \<lparr>c_id = 1, c_student_id = 1, c_room_id = 1, category = Electrical, title = ''Fan'',
      description = ''Fan is broken'', status = Open, priority = 2, assigned_staff_id = None,
      resolution_notes = None, created_at = 10, assigned_at = None, resolved_at = None,
      closed_at = None, updated_at = 10\<rparr>"

section \<open>Properties\<close>

subsection \<open>Zero denominators in the analytics\<close>

text \<open>
  C10. Every percentage or rate of the analytics routes is 0 when its denominator is
  zero: the category percentage and the resolution rates over zero complaints, the
  occupancy rates over zero capacity (or over no room at all), the complaints per room
  over zero rooms. The result is the number 0, not NaN or an infinity, and the SQL
  computations raise no division error.
\<close>

theorem analytics_zero_denominator:
  "percentage cnt 0 = Num 0
   \<and> occupancy_rate occ 0 = Num 0
   \<and> overall_resolution_rate resolved_count 0 = Num 0
   \<and> complaints_per_room cnt 0 = Num 0
   \<and> resolution_rate resolved_count 0 = Inr 0
   \<and> hostel_occupancy_rate occ (Some 0) = Inr 0
   \<and> hostel_occupancy_rate occ None = Inr 0
   \<and> categories_GET [] = []"
  by (simp add: percentage_def occupancy_rate_def resolution_rate_def categories_GET_def
        overall_resolution_rate_def complaints_per_room_def hostel_occupancy_rate_def)

subsection \<open>The complaint statements leave rooms and allocations alone\<close>

lemma log_complaint_status_change_frame:
  "log_complaint_status_change now old new d = (new', d')
     \<Longrightarrow> d' = d\<lparr>complaint_logs := complaint_logs d'\<rparr>"
  by (auto simp: log_complaint_status_change_def Let_def split: if_splits)

lemma update_complaints_rows_frame:
  "update_complaints_rows now cid updates rows d = Inr (rows', d')
     \<Longrightarrow> d' = d\<lparr>complaint_logs := complaint_logs d'\<rparr>"
proof (induction rows arbitrary: d rows' d')
  case Nil
  then show ?case by simp
next
  case (Cons c rest)
  show ?case
  proof (cases "c_id c = cid")
    case True
    obtain new d1 where t: "log_complaint_status_change now c (apply_updates updates c) d = (new, d1)"
      by (cases "log_complaint_status_change now c (apply_updates updates c) d")
    with Cons.prems True obtain rest' where
      r: "update_complaints_rows now cid updates rest d1 = Inr (rest', d')"
      by (auto split: option.splits sum.splits)
    have "d' = d1\<lparr>complaint_logs := complaint_logs d'\<rparr>" by (rule Cons.IH[OF r])
    also have "d1 = d\<lparr>complaint_logs := complaint_logs d1\<rparr>"
      by (rule log_complaint_status_change_frame[OF t])
    finally show ?thesis by simp
  next
    case False
    with Cons.prems obtain rest' where
      r: "update_complaints_rows now cid updates rest d = Inr (rest', d')"
      by (auto split: sum.splits)
    from Cons.IH[OF r] show ?thesis .
  qed
qed

lemma update_complaints_frame:
  assumes "update_complaints now cid updates d = Inr (res, d')"
  shows "rooms d' = rooms d \<and> allocations d' = allocations d"
proof -
  from assms obtain rows' d1 where
    r: "update_complaints_rows now cid updates (complaints d) d = Inr (rows', d1)"
    and e: "d' = d1\<lparr>complaints := rows'\<rparr>"
    by (auto simp: update_complaints_def split: sum.splits)
  from update_complaints_rows_frame[OF r] have "rooms d1 = rooms d \<and> allocations d1 = allocations d"
    by (metis db.select_convs(2,4) db.surjective db.update_convs(11))
  with e show ?thesis by simp
qed

lemma insert_complaint_frame:
  "rooms (snd (insert_complaint sid rid cat ttl descr prio now d)) = rooms d
   \<and> allocations (snd (insert_complaint sid rid cat ttl descr prio now d)) = allocations d"
  by (simp add: insert_complaint_def log_complaint_creation_def Let_def split: option.splits)

lemma POST_complaints_run_frame:
  assumes "d' \<in> set (snd (POST_complaints_run body now d))"
  shows "rooms d' = rooms d \<and> allocations d' = allocations d"
proof -
  from assms obtain sid rid cat ttl descr prio where
    "d' = snd (insert_complaint sid rid cat ttl descr prio now d)"
    by (auto simp: POST_complaints_run_def split: option.splits if_splits prod.splits sum.splits)
       (metis snd_conv)+
  then show ?thesis by (simp add: insert_complaint_frame)
qed

lemma PUT_complaint_run_frame:
  assumes "d' \<in> set (snd (PUT_complaint_run param body now d))"
  shows "rooms d' = rooms d \<and> allocations d' = allocations d"
  using assms
  by (auto simp: PUT_complaint_run_def
           split: option.splits list.splits sum.splits if_splits prod.splits
           dest: update_complaints_frame)

subsection \<open>Statements and routes keep the occupancy bounds\<close>

lemma first_violation_None:
  "first_violation chk xs = None \<longleftrightarrow> (\<forall>x \<in> set xs. chk x = None)"
  by (induction xs) (auto simp: first_violation_def List.map_filter_simps split: option.splits list.splits)

lemma rooms_check_None:
  "rooms_check r = None \<Longrightarrow> 0 \<le> current_occupancy r \<and> current_occupancy r \<le> capacity r"
  by (simp add: rooms_check_def split: if_splits)

lemma update_rooms_Inr:
  assumes "update_rooms P f d = Inr d'"
  shows "d' = d\<lparr>rooms := map (\<lambda>r. if P r then f r else r) (rooms d)\<rparr>"
    and "\<forall>r \<in> set (rooms d). P r \<longrightarrow> rooms_check (f r) = None"
  using assms by (auto simp: update_rooms_def first_violation_None split: option.splits)

lemma update_rooms_bounds:
  assumes "update_rooms P f d = Inr d'" and "occupancy_within_bounds d"
  shows "occupancy_within_bounds d'"
  using update_rooms_Inr[OF assms(1)] assms(2)
  by (auto simp: occupancy_within_bounds_def dest: rooms_check_None)

lemma update_rooms_frame:
  assumes "update_rooms P f d = Inr d'"
  shows "allocations d' = allocations d"
  using update_rooms_Inr(1)[OF assms] by simp

lemma check_room_capacity_bounds:
  assumes "check_room_capacity op old new d = Inr d'" and "occupancy_within_bounds d"
  shows "occupancy_within_bounds d'"
  using assms by (auto simp: check_room_capacity_def split: if_splits dest: update_rooms_bounds)

lemma check_room_capacity_frame:
  assumes "check_room_capacity op old new d = Inr d'"
  shows "allocations d' = allocations d"
  using assms by (auto simp: check_room_capacity_def split: if_splits dest: update_rooms_frame)

lemma update_allocations_rows_Inr:
  "update_allocations_rows P f rows d = Inr (rows', d') \<Longrightarrow>
     rows' = map (\<lambda>a. if P a then f a else a) rows
     \<and> (occupancy_within_bounds d \<longrightarrow> occupancy_within_bounds d')"
proof (induction rows arbitrary: d rows' d')
  case Nil
  then show ?case by simp
next
  case (Cons a rest)
  show ?case
  proof (cases "P a")
    case True
    with Cons.prems obtain d1 rest' where
      t: "check_room_capacity TG_UPDATE a (f a) d = Inr d1"
      and r: "update_allocations_rows P f rest d1 = Inr (rest', d')"
      and e: "rows' = f a # rest'"
      by (auto split: sum.splits option.splits)
    from Cons.IH[OF r] check_room_capacity_bounds[OF t] e True show ?thesis by auto
  next
    case False
    with Cons.prems obtain rest' where
      r: "update_allocations_rows P f rest d = Inr (rest', d')"
      and e: "rows' = a # rest'"
      by (auto split: sum.splits)
    from Cons.IH[OF r] e False show ?thesis by auto
  qed
qed

lemma update_allocations_Inr:
  assumes "update_allocations P f d = Inr (res, d')"
  shows "allocations d' = map (\<lambda>a. if P a then f a else a) (allocations d)"
    and "occupancy_within_bounds d \<Longrightarrow> occupancy_within_bounds d'"
proof -
  from assms obtain rows' d1 where
    r: "update_allocations_rows P f (allocations d) d = Inr (rows', d1)"
    and e: "d' = d1\<lparr>allocations := rows'\<rparr>"
    by (auto simp: update_allocations_def split: sum.splits if_splits)
  from update_allocations_rows_Inr[OF r] e
  show "allocations d' = map (\<lambda>a. if P a then f a else a) (allocations d)" by simp
  assume "occupancy_within_bounds d"
  with update_allocations_rows_Inr[OF r] e show "occupancy_within_bounds d'"
    by (simp add: occupancy_within_bounds_def)
qed

lemma insert_allocation_bounds:
  assumes "occupancy_within_bounds d"
  shows "occupancy_within_bounds (snd (insert_allocation sid rid today ex nts d))"
proof -
  let ?d0 = "d\<lparr>allocations_id_seq := Suc (allocations_id_seq d)\<rparr>"
  have b0: "occupancy_within_bounds ?d0"
    using assms by (simp add: occupancy_within_bounds_def)
  show ?thesis
    using b0 check_room_capacity_bounds[OF _ b0]
    by (auto simp: insert_allocation_def Let_def occupancy_within_bounds_def
             split: sum.splits option.splits)
qed


lemma insert_allocation_bounds':
  "insert_allocation sid rid today ex nts d = (res, d2) \<Longrightarrow> occupancy_within_bounds d
     \<Longrightarrow> occupancy_within_bounds d2"
  using insert_allocation_bounds[of d sid rid today ex nts] by simp

lemma POST_allocations_run_bounds:
  assumes "occupancy_within_bounds d" and "d' \<in> set (snd (POST_allocations_run body today d))"
  shows "occupancy_within_bounds d'"
  using assms
  by (auto simp: POST_allocations_run_def Let_def
           split: list.splits sum.splits prod.splits if_splits
           dest: update_allocations_Inr(2) insert_allocation_bounds' update_rooms_bounds)

lemma DELETE_allocation_run_bounds:
  assumes "occupancy_within_bounds d" and "d' \<in> set (snd (DELETE_allocation_run param today d))"
  shows "occupancy_within_bounds d'"
  using assms
  by (auto simp: DELETE_allocation_run_def
           split: option.splits list.splits sum.splits prod.splits if_splits
           dest: update_allocations_Inr(2) update_rooms_bounds)

lemma PUT_allocation_run_bounds:
  assumes "occupancy_within_bounds d" and "d' \<in> set (snd (PUT_allocation_run param ec nts d))"
  shows "occupancy_within_bounds d'"
  using assms
  by (auto simp: PUT_allocation_run_def
           split: option.splits list.splits sum.splits prod.splits if_splits
           dest: update_allocations_Inr(2))

lemma DELETE_student_run_bounds:
  assumes "occupancy_within_bounds d" and "d' \<in> set (snd (DELETE_student_run param today d))"
  shows "occupancy_within_bounds d'"
proof -
  have b: "occupancy_within_bounds (d\<lparr>students := xs\<rparr>)" for xs
    using assms(1) by (simp add: occupancy_within_bounds_def)
  show ?thesis
    using assms(2) b
    by (auto simp: DELETE_student_run_def Let_def
             split: option.splits list.splits sum.splits prod.splits if_splits
             dest: update_allocations_Inr(2))
qed

lemma insert_room_bounds:
  assumes "occupancy_within_bounds d"
  shows "occupancy_within_bounds (snd (insert_room hid cap d))"
  using assms
  by (auto simp: insert_room_def Let_def occupancy_within_bounds_def
           split: option.splits dest: rooms_check_None)

lemma reachable_occupancy_within_bounds:
  "reachable d \<Longrightarrow> occupancy_within_bounds d"
proof (induction rule: reachable.induct)
  case init
  show ?case by (simp add: occupancy_within_bounds_def empty_db_def)
next
  case (hostel d g)
  then show ?case by (simp add: occupancy_within_bounds_def insert_hostel_def)
next
  case (room d hid cap)
  then show ?case by (simp add: insert_room_bounds)
next
  case (student d g)
  then show ?case by (simp add: occupancy_within_bounds_def insert_student_def)
next
  case (seed_allocation d sid rid day expected nts)
  then show ?case by (simp add: insert_allocation_bounds)
next
  case (assign d d' body today)
  then show ?case by (blast intro: POST_allocations_run_bounds)
next
  case (checkout d d' param today)
  then show ?case by (blast intro: DELETE_allocation_run_bounds)
next
  case (update d d' param ec nts)
  then show ?case by (blast intro: PUT_allocation_run_bounds)
next
  case (student_delete d d' param today)
  then show ?case by (blast intro: DELETE_student_run_bounds)
next
  case (staff_member d avail)
  then show ?case by (simp add: occupancy_within_bounds_def insert_staff_def)
next
  case (complaint d d' cbody now)
  then show ?case by (simp add: occupancy_within_bounds_def POST_complaints_run_frame)
next
  case (complaint_update d d' param ubody now)
  then show ?case by (simp add: occupancy_within_bounds_def PUT_complaint_run_frame)
qed

text \<open>
  C1. In every reachable state, also one reached between two statements of an assign
  or a checkout, every room has \<open>0 \<le> current_occupancy \<le> capacity\<close>. Each write
  of the counter (the trigger's increment and decrement, the route's \<open>+ 1\<close> after the
  allocation insert, the route's \<open>GREATEST(0, n - 1)\<close> on checkout) either keeps the
  bounds or is refused by the CHECK constraints and writes nothing.
\<close>

theorem room_occupancy_bounds:
  "reachable d \<Longrightarrow> r \<in> set (rooms d)
     \<Longrightarrow> 0 \<le> current_occupancy r \<and> current_occupancy r \<le> capacity r"
  using reachable_occupancy_within_bounds[of d] by (simp add: occupancy_within_bounds_def)

subsection \<open>Statements and routes keep one active allocation per student\<close>

lemma active_rows_of_map_le:
  assumes "\<And>a. student_id (g a) = student_id a" and "\<And>a. is_active (g a) \<Longrightarrow> is_active a"
  shows "length (active_rows_of sid (map g xs)) \<le> length (active_rows_of sid xs)"
proof (induction xs)
  case Nil
  show ?case by (simp add: active_rows_of_def)
next
  case (Cons a xs)
  then show ?case using assms[of a] by (auto simp: active_rows_of_def)
qed

lemma update_allocations_one_active:
  assumes u: "update_allocations P f d = Inr (res, d')"
    and s: "\<And>a. student_id (f a) = student_id a"
    and i: "\<And>a. is_active (f a) \<Longrightarrow> is_active a"
    and inv: "one_active_per_student d"
  shows "one_active_per_student d'"
proof -
  let ?g = "\<lambda>a. if P a then f a else a"
  have "length (active_rows_of sid (map ?g (allocations d))) \<le> 1" for sid
  proof -
    have "length (active_rows_of sid (map ?g (allocations d)))
            \<le> length (active_rows_of sid (allocations d))"
      by (rule active_rows_of_map_le) (auto simp: s dest: i split: if_splits)
    with inv show ?thesis by (simp add: one_active_per_student_def le_trans)
  qed
  with update_allocations_Inr(1)[OF u] show ?thesis
    by (simp add: one_active_per_student_def)
qed

lemma deactivate_one_active:
  "update_allocations P (deactivate today) d = Inr (res, d') \<Longrightarrow> one_active_per_student d
     \<Longrightarrow> one_active_per_student d'"
  by (erule update_allocations_one_active) (simp_all add: deactivate_def)

lemma set_fields_one_active:
  "update_allocations P (set_fields ec nts) d = Inr (res, d') \<Longrightarrow> one_active_per_student d
     \<Longrightarrow> one_active_per_student d'"
  by (erule update_allocations_one_active)
     (simp_all add: set_fields_def Let_def split: option.splits)

lemma update_rooms_one_active:
  "update_rooms P f d = Inr d' \<Longrightarrow> one_active_per_student d \<Longrightarrow> one_active_per_student d'"
  by (simp add: one_active_per_student_def update_rooms_frame)

lemma insert_allocation_one_active:
  assumes "insert_allocation sid rid today ex nts d = (res, d2)" and "one_active_per_student d"
  shows "one_active_per_student d2"
proof (cases res)
  case (Inl e)
  with assms(1) have "allocations d2 = allocations d"
    by (auto simp: insert_allocation_def Let_def split: sum.splits option.splits if_splits)
  with assms(2) show ?thesis by (simp add: one_active_per_student_def)
next
  case (Inr new)
  with assms(1) have a: "allocations d2 = allocations d @ [new]"
    and n: "student_id new = sid" "is_active new"
    and v: "\<not> idx_one_active_allocation_violated [new] (allocations d @ [new])"
    by (auto simp: insert_allocation_def Let_def split: sum.splits option.splits if_splits)
  have "length (active_rows_of s (allocations d @ [new])) \<le> 1" for s
  proof (cases "s = sid")
    case True
    with v n show ?thesis by (simp add: idx_one_active_allocation_violated_def)
  next
    case False
    with n assms(2) show ?thesis
      by (simp add: active_rows_of_def one_active_per_student_def)
  qed
  with a show ?thesis by (simp add: one_active_per_student_def)
qed

lemma POST_allocations_run_one_active:
  assumes "one_active_per_student d" and "d' \<in> set (snd (POST_allocations_run body today d))"
  shows "one_active_per_student d'"
  using assms
  by (auto simp: POST_allocations_run_def Let_def
           split: list.splits sum.splits prod.splits if_splits
           dest: deactivate_one_active insert_allocation_one_active update_rooms_one_active)

lemma DELETE_allocation_run_one_active:
  assumes "one_active_per_student d" and "d' \<in> set (snd (DELETE_allocation_run param today d))"
  shows "one_active_per_student d'"
  using assms
  by (auto simp: DELETE_allocation_run_def
           split: option.splits list.splits sum.splits prod.splits if_splits
           dest: deactivate_one_active update_rooms_one_active)

lemma PUT_allocation_run_one_active:
  assumes "one_active_per_student d" and "d' \<in> set (snd (PUT_allocation_run param ec nts d))"
  shows "one_active_per_student d'"
  using assms
  by (auto simp: PUT_allocation_run_def
           split: option.splits list.splits sum.splits prod.splits if_splits
           dest: set_fields_one_active)

lemma DELETE_student_run_one_active:
  assumes "one_active_per_student d" and "d' \<in> set (snd (DELETE_student_run param today d))"
  shows "one_active_per_student d'"
proof -
  have b: "one_active_per_student (d\<lparr>students := xs\<rparr>)" for xs
    using assms(1) by (simp add: one_active_per_student_def)
  show ?thesis
    using assms(2) b
    by (auto simp: DELETE_student_run_def Let_def
             split: option.splits list.splits sum.splits prod.splits if_splits
             dest: deactivate_one_active)
qed

lemma reachable_one_active_per_student:
  "reachable d \<Longrightarrow> one_active_per_student d"
proof (induction rule: reachable.induct)
  case init
  show ?case by (simp add: one_active_per_student_def empty_db_def active_rows_of_def)
next
  case (hostel d g)
  then show ?case by (simp add: one_active_per_student_def insert_hostel_def)
next
  case (room d hid cap)
  then show ?case
    by (auto simp: one_active_per_student_def insert_room_def Let_def split: option.splits)
next
  case (student d g)
  then show ?case by (simp add: one_active_per_student_def insert_student_def)
next
  case (seed_allocation d sid rid day expected nts)
  then show ?case by (blast intro: insert_allocation_one_active[OF surjective_pairing])
next
  case (assign d d' body today)
  then show ?case by (blast intro: POST_allocations_run_one_active)
next
  case (checkout d d' param today)
  then show ?case by (blast intro: DELETE_allocation_run_one_active)
next
  case (update d d' param ec nts)
  then show ?case by (blast intro: PUT_allocation_run_one_active)
next
  case (student_delete d d' param today)
  then show ?case by (blast intro: DELETE_student_run_one_active)
next
  case (staff_member d avail)
  then show ?case by (simp add: one_active_per_student_def insert_staff_def)
next
  case (complaint d d' cbody now)
  then show ?case by (simp add: one_active_per_student_def POST_complaints_run_frame)
next
  case (complaint_update d d' param ubody now)
  then show ?case by (simp add: one_active_per_student_def PUT_complaint_run_frame)
qed

text \<open>
  C2. In every reachable state, every student has zero or one allocation row with
  \<open>is_active = true\<close>, never more. Assign (which deactivates, then inserts),
  checkout, the allocation update and the student's soft delete all keep it so, in the
  states between their statements as well.
\<close>

theorem one_active_allocation_per_student:
  "reachable d \<Longrightarrow>
     length (filter (\<lambda>a. student_id a = sid \<and> is_active a) (allocations d)) \<le> 1"
  using reachable_one_active_per_student[of d]
  by (simp add: one_active_per_student_def active_rows_of_def)

subsection \<open>Witnesses of the two invariants\<close>

lemma seed_db_reachable: "reachable seed_db"
  unfolding seed_db_def
  by (intro reachable.room reachable.student reachable.hostel reachable.init)

lemma after_assign_reachable: "reachable (snd (POST_allocations body_1_A 100 seed_db))"
proof -
  have "snd (POST_allocations body_1_A 100 seed_db)
          \<in> set (snd (POST_allocations_run body_1_A 100 seed_db))"
    by code_simp
  then show ?thesis by (rule reachable.assign[OF seed_db_reachable])
qed

theorem room_occupancy_bounds_witness:
  "reachable (snd (POST_allocations body_1_A 100 seed_db))
   \<and> \<lparr>r_id = 1, hostel_id = 1, capacity = 3, current_occupancy = 2, is_available = True\<rparr>
       \<in> set (rooms (snd (POST_allocations body_1_A 100 seed_db)))
   \<and> (0::int) \<le> 2 \<and> (2::int) \<le> 3"
proof -
  have m: "\<lparr>r_id = 1, hostel_id = 1, capacity = 3, current_occupancy = 2, is_available = True\<rparr>
       \<in> set (rooms (snd (POST_allocations body_1_A 100 seed_db)))"
    by code_simp
  from room_occupancy_bounds[OF after_assign_reachable m] after_assign_reachable m
  show ?thesis by simp
qed

theorem one_active_allocation_per_student_witness:
  "reachable (snd (POST_allocations body_1_A 100 seed_db))
   \<and> length (filter (\<lambda>a. student_id a = 1 \<and> is_active a)
               (allocations (snd (POST_allocations body_1_A 100 seed_db)))) \<le> 1"
  using one_active_allocation_per_student[OF after_assign_reachable, of 1] after_assign_reachable
  by simp

subsection \<open>Assigning to a full room\<close>

text \<open>
  C4. When the requested room is at full capacity, assign fails and changes nothing:
  the route executes no write statement, the database after it is the database before
  it (the room's occupancy, the allocation rows and the student's earlier active
  allocation included). The error is the room-full error whenever the request names
  an active student and an available room, that is, whenever the two checks that the
  route makes before the capacity check pass.
\<close>

theorem assign_to_full_room:
  assumes full: "\<forall>r \<in> set (rooms d). r_id r = id_value (b_room_id body)
                   \<longrightarrow> current_occupancy r = capacity r"
  shows "snd (POST_allocations_run body today d) = []
         \<and> (\<exists>e. POST_allocations body today d = (Inl e, d))
         \<and> (truthy_id (b_student_id body) \<and> truthy_id (b_room_id body)
              \<and> studentCheck (id_value (b_student_id body)) d \<noteq> []
              \<and> roomCheck (id_value (b_room_id body)) d \<noteq> []
            \<longrightarrow> POST_allocations body today d = (Inl RoomFull, d))"
proof -
  have rc: "capacity rm \<le> current_occupancy rm"
    if "roomCheck (id_value (b_room_id body)) d = (rm, h) # rest" for rm h rest
  proof -
    from that have "(rm, h) \<in> set (roomCheck (id_value (b_room_id body)) d)" by simp
    then have "rm \<in> set (rooms d) \<and> r_id rm = id_value (b_room_id body)"
      by (auto simp: roomCheck_def)
    with full show ?thesis by auto
  qed
  show ?thesis
    using rc
    by (auto simp: POST_allocations_def POST_allocations_run_def final_state_def Let_def
             split: list.splits)
qed

theorem assign_to_full_room_witness:
  "map (\<lambda>r. (r_id r, current_occupancy r, capacity r)) (rooms full_room_db)
     = [(1, 1, 1), (2, 1, 3)]
   \<and> b_room_id body_1_A = Some 1
   \<and> truthy_id (b_student_id body_1_A) \<and> truthy_id (b_room_id body_1_A)
   \<and> studentCheck (id_value (b_student_id body_1_A)) full_room_db \<noteq> []
   \<and> roomCheck (id_value (b_room_id body_1_A)) full_room_db \<noteq> []
   \<and> map room_id (active_rows_of 1 (allocations full_room_db)) = [2]
   \<and> snd (POST_allocations_run body_1_A 101 full_room_db) = []
   \<and> POST_allocations body_1_A 101 full_room_db = (Inl RoomFull, full_room_db)"
proof -
  have h: "\<forall>r \<in> set (rooms full_room_db). r_id r = id_value (b_room_id body_1_A)
             \<longrightarrow> current_occupancy r = capacity r"
    by code_simp
  have c: "map (\<lambda>r. (r_id r, current_occupancy r, capacity r)) (rooms full_room_db)
             = [(1, 1, 1), (2, 1, 3)]
           \<and> b_room_id body_1_A = Some 1
           \<and> truthy_id (b_student_id body_1_A) \<and> truthy_id (b_room_id body_1_A)
           \<and> studentCheck (id_value (b_student_id body_1_A)) full_room_db \<noteq> []
           \<and> roomCheck (id_value (b_room_id body_1_A)) full_room_db \<noteq> []
           \<and> map room_id (active_rows_of 1 (allocations full_room_db)) = [2]"
    by code_simp
  from assign_to_full_room[OF h, of 101] c show ?thesis by blast
qed

subsection \<open>The occupancy counter is written twice\<close>

text \<open>
  C3. Student 1 is assigned to room 1 and then to room 2, both empty rooms of capacity
  3 in a hostel that accepts the student. The second assign succeeds and leaves the
  student with exactly one active allocation, in room 2, and room 1 loses one occupant
  (2 to 1). Room 2, however, goes from 0 to 2, not to 1: the trigger counts the new row
  and the route then adds one more.
\<close>

theorem reassign_counts_room_B_twice:
  "fst (POST_allocations body_1_A 100 seed_db)
     = Inr \<lparr>a_id = 1, student_id = 1, room_id = 1, allocation_date = 100,
            expected_checkout = None, actual_checkout = None, is_active = True, a_notes = None\<rparr>
   \<and> fst (POST_allocations body_1_B 100 (snd (POST_allocations body_1_A 100 seed_db)))
     = Inr \<lparr>a_id = 2, student_id = 1, room_id = 2, allocation_date = 100,
            expected_checkout = None, actual_checkout = None, is_active = True, a_notes = None\<rparr>
   \<and> map room_id (active_rows_of 1 (allocations
        (snd (POST_allocations body_1_B 100 (snd (POST_allocations body_1_A 100 seed_db)))))) = [2]
   \<and> occupancy_of 1 (snd (POST_allocations body_1_A 100 seed_db)) = [2]
   \<and> occupancy_of 1
        (snd (POST_allocations body_1_B 100 (snd (POST_allocations body_1_A 100 seed_db)))) = [1]
   \<and> occupancy_of 2 (snd (POST_allocations body_1_A 100 seed_db)) = [0]
   \<and> occupancy_of 2
        (snd (POST_allocations body_1_B 100 (snd (POST_allocations body_1_A 100 seed_db)))) = [2]"
  by code_simp

text \<open>
  C5. Room 1 holds students 1 and 2 (occupancy 2). The first checkout of allocation 1
  succeeds and the second one is refused as already inactive. Over the two calls the
  occupancy of room 1 drops from 2 to 0, that is by two: once by the trigger on the
  deactivation and once more by the route, while student 2 still lives in the room.
\<close>

theorem checkout_decrements_twice:
  "occupancy_of 1 shared_room_db = [2]
   \<and> map is_active (allocations shared_room_db) = [True, True]
   \<and> fst (DELETE_allocation (Some 1) 101 shared_room_db)
       = Inr [\<lparr>a_id = 1, student_id = 1, room_id = 1, allocation_date = 100,
               expected_checkout = None, actual_checkout = Some 101, is_active = False,
               a_notes = None\<rparr>]
   \<and> fst (DELETE_allocation (Some 1) 101 (snd (DELETE_allocation (Some 1) 101 shared_room_db)))
       = Inl AlreadyInactive
   \<and> occupancy_of 1 (snd (DELETE_allocation (Some 1) 101 shared_room_db)) = [0]
   \<and> occupancy_of 1
        (snd (DELETE_allocation (Some 1) 101 (snd (DELETE_allocation (Some 1) 101 shared_room_db))))
       = [0]
   \<and> map is_active (allocations (snd (DELETE_allocation (Some 1) 101 shared_room_db)))
       = [False, True]"
  by code_simp

subsection \<open>The complaint update, row by row\<close>

lemma trigger_row:
  "fst (log_complaint_status_change now old new d) =
     new\<lparr>assigned_at := (if status new = Assigned \<and> status old \<noteq> Assigned then Some now
                          else assigned_at new),
         resolved_at := (if status new = Resolved \<and> status old \<noteq> Resolved then Some now
                          else resolved_at new),
         closed_at := (if status new = Closed \<and> status old \<noteq> Closed then Some now
                        else closed_at new),
         updated_at := now\<rparr>"
  by (simp add: log_complaint_status_change_def Let_def)

lemma trigger_logs:
  "snd (log_complaint_status_change now old new d) =
     (if status old \<noteq> status new
      then d\<lparr>complaint_logs := complaint_logs d @
               [\<lparr>complaint_id = c_id new, old_status = Some (status old),
                 new_status = status new, changed_by = current_user_or_system d,
                 l_notes = change_note new, changed_at = now\<rparr>]\<rparr>
      else d)"
  by (simp add: log_complaint_status_change_def Let_def)

lemma assign_column_keeps:
  "c_id (assign_column c u) = c_id c \<and> assigned_at (assign_column c u) = assigned_at c
   \<and> resolved_at (assign_column c u) = resolved_at c \<and> closed_at (assign_column c u) = closed_at c"
  by (cases u) simp_all

lemma apply_updates_keeps:
  "c_id (apply_updates us c) = c_id c \<and> assigned_at (apply_updates us c) = assigned_at c
   \<and> resolved_at (apply_updates us c) = resolved_at c \<and> closed_at (apply_updates us c) = closed_at c"
  unfolding apply_updates_def
  by (induction us arbitrary: c) (simp_all add: assign_column_keeps)

lemma update_complaints_rows_other:
  "\<forall>c \<in> set rows. c_id c \<noteq> cid \<Longrightarrow> update_complaints_rows now cid us rows d = Inr (rows, d)"
  by (induction rows) simp_all

lemma update_complaints_rows_pk:
  assumes "distinct (map c_id rows)" and "c \<in> set rows" and "c_id c = cid"
    and "update_complaints_rows now cid us rows d = Inr (rows', d')"
  shows "d' = snd (log_complaint_status_change now c (apply_updates us c) d)
         \<and> filter (\<lambda>x. c_id x = cid) rows'
             = [fst (log_complaint_status_change now c (apply_updates us c) d)]"
  using assms
proof (induction rows arbitrary: rows')
  case Nil
  then show ?case by simp
next
  case (Cons x rest)
  show ?case
  proof (cases "c_id x = cid")
    case True
    with Cons.prems have xc: "x = c" and other: "\<forall>y \<in> set rest. c_id y \<noteq> cid"
      by (auto simp: image_iff)
    obtain new d1 where t: "log_complaint_status_change now c (apply_updates us c) d = (new, d1)"
      by (cases "log_complaint_status_change now c (apply_updates us c) d")
    have nid: "c_id new = cid"
      using trigger_row[of now c "apply_updates us c" d] t Cons.prems(3)
      by (simp add: apply_updates_keeps)
    from Cons.prems(4) True xc t update_complaints_rows_other[OF other, of now us d1]
    have "rows' = new # rest \<and> d' = d1"
      by (auto split: option.splits)
    with t nid other show ?thesis by (simp add: filter_empty_conv)
  next
    case False
    with Cons.prems obtain rest' where
      r: "update_complaints_rows now cid us rest d = Inr (rest', d')" and e: "rows' = x # rest'"
      and m: "c \<in> set rest" and dd: "distinct (map c_id rest)"
      by (auto split: sum.splits)
    from Cons.IH[OF dd m Cons.prems(3) r] e False show ?thesis by simp
  qed
qed

lemma PUT_complaint_run_Inl:
  "fst (PUT_complaint_run param body now d) = Inl e \<Longrightarrow> snd (PUT_complaint_run param body now d) = []"
  by (auto simp: PUT_complaint_run_def
           split: option.splits list.splits sum.splits if_splits prod.splits)

lemma filter_pk:
  "distinct (map f xs) \<Longrightarrow> x \<in> set xs \<Longrightarrow> filter (\<lambda>y. f y = f x) xs = [x]"
proof (induction xs)
  case Nil
  then show ?case by simp
next
  case (Cons a xs)
  then show ?case by (auto simp: filter_empty_conv image_iff)
qed

lemma PUT_complaint_run_Inr:
  assumes pk: "distinct (map c_id (complaints d))" and c: "c \<in> set (complaints d)" "c_id c = cid"
    and run: "PUT_complaint_run (Some cid) body now d = (Inr res, ds)"
  shows "\<exists>us rows'.
           res = [fst (log_complaint_status_change now c (apply_updates us c) d)]
           \<and> ds = [(snd (log_complaint_status_change now c (apply_updates us c) d))
                     \<lparr>complaints := rows'\<rparr>]
           \<and> filter (\<lambda>x. c_id x = cid) rows' = res"
proof -
  have f: "filter (\<lambda>x. c_id x = cid) (complaints d) = [c]"
    using filter_pk[OF pk c(1)] c(2) by simp
  from run f obtain us result d1 where
    u: "update_complaints now cid us d = Inr (result, d1)"
    and r: "res = take 1 result" and s: "ds = [d1]"
    by (auto simp: PUT_complaint_run_def split: sum.splits if_splits prod.splits)
  from u obtain rows' d2 where
    rows: "update_complaints_rows now cid us (complaints d) d = Inr (rows', d2)"
    and res2: "result = filter (\<lambda>x. c_id x = cid) rows'" and d1: "d1 = d2\<lparr>complaints := rows'\<rparr>"
    by (auto simp: update_complaints_def split: sum.splits)
  from update_complaints_rows_pk[OF pk c rows] r s res2 d1 show ?thesis by auto
qed


lemma PUT_complaint_Inr:
  assumes pk: "distinct (map c_id (complaints d))" and c: "c \<in> set (complaints d)" "c_id c = cid"
    and put: "fst (PUT_complaint (Some cid) body now d) = Inr res"
  shows "\<exists>us rows'.
           res = [fst (log_complaint_status_change now c (apply_updates us c) d)]
           \<and> snd (PUT_complaint (Some cid) body now d)
               = (snd (log_complaint_status_change now c (apply_updates us c) d))
                   \<lparr>complaints := rows'\<rparr>
           \<and> filter (\<lambda>x. c_id x = cid) rows' = res"
proof -
  obtain ds where run: "PUT_complaint_run (Some cid) body now d = (Inr res, ds)"
    using put by (cases "PUT_complaint_run (Some cid) body now d")
                 (simp add: PUT_complaint_def final_state_def)
  from PUT_complaint_run_Inr[OF pk c run] obtain us rows' where
    "res = [fst (log_complaint_status_change now c (apply_updates us c) d)]"
    "ds = [(snd (log_complaint_status_change now c (apply_updates us c) d))\<lparr>complaints := rows'\<rparr>]"
    "filter (\<lambda>x. c_id x = cid) rows' = res"
    by blast
  with run show ?thesis
    by (intro exI[of _ us] exI[of _ rows']) (simp add: PUT_complaint_def final_state_def)
qed

lemma PUT_complaint_Inl:
  assumes "fst (PUT_complaint param body now d) = Inl e"
  shows "snd (PUT_complaint param body now d) = d"
  using assms PUT_complaint_run_Inl[of param body now d e]
  by (simp add: PUT_complaint_def final_state_def)

subsection \<open>Timestamps of a complaint\<close>

text \<open>
  The complaint of the scenario was assigned at time 20 and set back to open at time
  30. Assigning it again at time 40 replaces the timestamp: \<open>assigned_at\<close> was set
  before, and the status change sets it once more.
\<close>

theorem assigned_at_overwritten_on_reentry:
  "map status (complaints reopened_db) = [Open]
   \<and> map assigned_at (complaints reopened_db) = [Some 20]
   \<and> map assigned_at (complaints (snd (PUT_complaint (Some 1)
        (no_change\<lparr>u_status := Val ''assigned''\<rparr>) 40 reopened_db))) = [Some 40]"
  by code_simp

text \<open>
  C6, as the trigger implements it. An update that changes the status of a complaint to
  assigned, resolved or closed, from a different status, sets the corresponding
  timestamp to the time of the update, whether it was set before or not; every other
  successful update leaves the three timestamps as they were.
\<close>

theorem timestamps_follow_status_change:
  assumes pk: "distinct (map c_id (complaints d))" and c: "c \<in> set (complaints d)" "c_id c = cid"
    and put: "fst (PUT_complaint (Some cid) body now d) = Inr res"
  shows "\<exists>c'. res = [c']
           \<and> filter (\<lambda>x. c_id x = cid) (complaints (snd (PUT_complaint (Some cid) body now d))) = [c']
           \<and> assigned_at c' = (if status c' = Assigned \<and> status c \<noteq> Assigned then Some now
                                else assigned_at c)
           \<and> resolved_at c' = (if status c' = Resolved \<and> status c \<noteq> Resolved then Some now
                                else resolved_at c)
           \<and> closed_at c' = (if status c' = Closed \<and> status c \<noteq> Closed then Some now
                              else closed_at c)"
proof -
  from PUT_complaint_Inr[OF pk c put] obtain us rows' where
    r: "res = [fst (log_complaint_status_change now c (apply_updates us c) d)]"
    and s: "snd (PUT_complaint (Some cid) body now d)
              = (snd (log_complaint_status_change now c (apply_updates us c) d))\<lparr>complaints := rows'\<rparr>"
    and f: "filter (\<lambda>x. c_id x = cid) rows' = res"
    by blast
  show ?thesis
    using r f by (simp add: s trigger_row apply_updates_keeps)
qed

theorem timestamps_follow_status_change_witness:
  "distinct (map c_id (complaints reopened_db))
   \<and> the_complaint\<lparr>assigned_staff_id := Some 5, assigned_at := Some 20, updated_at := 30\<rparr>
        \<in> set (complaints reopened_db)
   \<and> fst (PUT_complaint (Some 1) (no_change\<lparr>u_status := Val ''assigned''\<rparr>) 40 reopened_db)
        = Inr [the_complaint\<lparr>status := Assigned, assigned_staff_id := Some 5,
                 assigned_at := Some 40, updated_at := 40\<rparr>]
   \<and> (\<exists>c'. [the_complaint\<lparr>status := Assigned, assigned_staff_id := Some 5,
                 assigned_at := Some 40, updated_at := 40\<rparr>] = [c']
          \<and> assigned_at c' = Some 40 \<and> resolved_at c' = None \<and> closed_at c' = None)"
proof -
  let ?c = "the_complaint\<lparr>assigned_staff_id := Some 5, assigned_at := Some 20, updated_at := 30\<rparr>"
  let ?r = "the_complaint\<lparr>status := Assigned, assigned_staff_id := Some 5,
                 assigned_at := Some 40, updated_at := 40\<rparr>"
  have h1: "distinct (map c_id (complaints reopened_db))" by code_simp
  have h2: "?c \<in> set (complaints reopened_db)" by code_simp
  have h3: "c_id ?c = 1" by code_simp
  have h4: "fst (PUT_complaint (Some 1) (no_change\<lparr>u_status := Val ''assigned''\<rparr>) 40 reopened_db)
              = Inr [?r]"
    by code_simp
  from timestamps_follow_status_change[OF h1 h2 h3 h4] h1 h2 h4 show ?thesis
    by (auto simp: the_complaint_def)
qed

subsection \<open>The audit log\<close>

text \<open>
  C7. A row is appended to complaint_logs exactly when the status of a complaint
  changes. A successful creation appends exactly one row, with no old status and the
  new status open; a failed one appends none. A successful update appends exactly one
  row when the status it stores differs from the old one, holding the old status, the
  new status and the derived note, and no row when the status stays the same (an
  update of the priority alone, say); a refused update appends none.
\<close>

theorem complaint_log_iff_status_change:
  "complaint_logs (snd (POST_complaints cbody now d)) =
     (case fst (POST_complaints cbody now d) of
        Inl e \<Rightarrow> complaint_logs d
      | Inr new \<Rightarrow>
          complaint_logs d @
            [\<lparr>complaint_id = c_id new, old_status = None, new_status = Open,
              changed_by = current_user_or_system d, l_notes = Some ''Complaint created'',
              changed_at = now\<rparr>])
   \<and> (distinct (map c_id (complaints d)) \<and> c \<in> set (complaints d) \<and> c_id c = cid \<longrightarrow>
        (case fst (PUT_complaint (Some cid) ubody now d) of
           Inl e \<Rightarrow> complaint_logs (snd (PUT_complaint (Some cid) ubody now d)) = complaint_logs d
         | Inr res \<Rightarrow>
             \<exists>c'. res = [c'] \<and>
               complaint_logs (snd (PUT_complaint (Some cid) ubody now d)) =
                 (if status c' = status c then complaint_logs d
                  else complaint_logs d @
                         [\<lparr>complaint_id = cid, old_status = Some (status c),
                           new_status = status c', changed_by = current_user_or_system d,
                           l_notes = change_note c', changed_at = now\<rparr>])))"
proof (intro conjI impI)
  show "complaint_logs (snd (POST_complaints cbody now d)) =
     (case fst (POST_complaints cbody now d) of
        Inl e \<Rightarrow> complaint_logs d
      | Inr new \<Rightarrow>
          complaint_logs d @
            [\<lparr>complaint_id = c_id new, old_status = None, new_status = Open,
              changed_by = current_user_or_system d, l_notes = Some ''Complaint created'',
              changed_at = now\<rparr>])"
    by (auto simp: POST_complaints_def POST_complaints_run_def final_state_def
                   insert_complaint_def log_complaint_creation_def Let_def
                   current_user_or_system_def
             split: option.splits)
next
  assume h: "distinct (map c_id (complaints d)) \<and> c \<in> set (complaints d) \<and> c_id c = cid"
  show "case fst (PUT_complaint (Some cid) ubody now d) of
           Inl e \<Rightarrow> complaint_logs (snd (PUT_complaint (Some cid) ubody now d)) = complaint_logs d
         | Inr res \<Rightarrow>
             \<exists>c'. res = [c'] \<and>
               complaint_logs (snd (PUT_complaint (Some cid) ubody now d)) =
                 (if status c' = status c then complaint_logs d
                  else complaint_logs d @
                         [\<lparr>complaint_id = cid, old_status = Some (status c),
                           new_status = status c', changed_by = current_user_or_system d,
                           l_notes = change_note c', changed_at = now\<rparr>])"
  proof (cases "fst (PUT_complaint (Some cid) ubody now d)")
    case (Inl e)
    with PUT_complaint_Inl[OF Inl] show ?thesis by simp
  next
    case (Inr res)
    from h have pk: "distinct (map c_id (complaints d))" and c: "c \<in> set (complaints d)" "c_id c = cid"
      by simp_all
    from PUT_complaint_Inr[OF pk c Inr] obtain us rows' where
      r: "res = [fst (log_complaint_status_change now c (apply_updates us c) d)]"
      and s: "snd (PUT_complaint (Some cid) ubody now d)
              = (snd (log_complaint_status_change now c (apply_updates us c) d))\<lparr>complaints := rows'\<rparr>"
      by blast
    define c' where "c' = fst (log_complaint_status_change now c (apply_updates us c) d)"
    have n: "change_note c' = change_note (apply_updates us c)"
      by (simp add: c'_def trigger_row change_note_def)
    have st: "status c' = status (apply_updates us c)"
      by (simp add: c'_def trigger_row)
    have logs: "complaint_logs (snd (PUT_complaint (Some cid) ubody now d)) =
                 (if status c' = status c then complaint_logs d
                  else complaint_logs d @
                         [\<lparr>complaint_id = cid, old_status = Some (status c),
                           new_status = status c', changed_by = current_user_or_system d,
                           l_notes = change_note c', changed_at = now\<rparr>])"
    proof (cases "status (apply_updates us c) = status c")
      case True
      then show ?thesis by (simp add: s trigger_logs st)
    next
      case False
      then have "status c \<noteq> status (apply_updates us c)" by simp
      with False show ?thesis by (simp add: s trigger_logs st n apply_updates_keeps c(2))
    qed
    have "\<exists>x. res = [x] \<and>
               complaint_logs (snd (PUT_complaint (Some cid) ubody now d)) =
                 (if status x = status c then complaint_logs d
                  else complaint_logs d @
                         [\<lparr>complaint_id = cid, old_status = Some (status c),
                           new_status = status x, changed_by = current_user_or_system d,
                           l_notes = change_note x, changed_at = now\<rparr>])"
      using logs r by (intro exI[of _ c']) (simp add: c'_def)
    then show ?thesis by (simp only: Inr sum.case)
  qed
qed

theorem complaint_log_iff_status_change_witness:
  "distinct (map c_id (complaints created_db)) \<and> the_complaint \<in> set (complaints created_db)
   \<and> c_id the_complaint = 1
   \<and> complaint_logs created_db
       = [\<lparr>complaint_id = 1, old_status = None, new_status = Open, changed_by = ''system'',
           l_notes = Some ''Complaint created'', changed_at = 10\<rparr>]
   \<and> (case fst (PUT_complaint (Some 1) (no_change\<lparr>u_priority := Val 1\<rparr>) 20 created_db) of
         Inl e \<Rightarrow>
           complaint_logs (snd (PUT_complaint (Some 1) (no_change\<lparr>u_priority := Val 1\<rparr>) 20
             created_db)) = complaint_logs created_db
       | Inr res \<Rightarrow>
           \<exists>c'. res = [c'] \<and>
             complaint_logs (snd (PUT_complaint (Some 1) (no_change\<lparr>u_priority := Val 1\<rparr>) 20
               created_db)) =
               (if status c' = status the_complaint then complaint_logs created_db
                else complaint_logs created_db @
                       [\<lparr>complaint_id = 1, old_status = Some (status the_complaint),
                         new_status = status c', changed_by = current_user_or_system created_db,
                         l_notes = change_note c', changed_at = 20\<rparr>]))
   \<and> complaint_logs assigned_db
       = complaint_logs created_db @
           [\<lparr>complaint_id = 1, old_status = Some Open, new_status = Assigned,
             changed_by = ''system'', l_notes = Some ''Assigned to staff ID: 5'',
             changed_at = 20\<rparr>]"
proof -
  have h: "distinct (map c_id (complaints created_db)) \<and> the_complaint \<in> set (complaints created_db)
           \<and> c_id the_complaint = 1"
    by code_simp
  have e: "complaint_logs created_db
       = [\<lparr>complaint_id = 1, old_status = None, new_status = Open, changed_by = ''system'',
           l_notes = Some ''Complaint created'', changed_at = 10\<rparr>]
     \<and> complaint_logs assigned_db
       = complaint_logs created_db @
           [\<lparr>complaint_id = 1, old_status = Some Open, new_status = Assigned,
             changed_by = ''system'', l_notes = Some ''Assigned to staff ID: 5'',
             changed_at = 20\<rparr>]"
    by code_simp
  from complaint_log_iff_status_change
         [of new_complaint 20 created_db the_complaint 1 "no_change\<lparr>u_priority := Val 1\<rparr>"] h e
  show ?thesis by blast
qed

subsection \<open>Status assigned and the assigned staff\<close>

text \<open>
  A complaint in status assigned, with staff 5, is updated with
  \<open>assigned_staff_id: null\<close>: the update is accepted and leaves the complaint in status
  assigned with no staff. On that complaint a request for status assigned that also
  changes the priority is accepted too, although neither the complaint nor the request
  has any staff.
\<close>

theorem assigned_without_staff:
  "map (\<lambda>c. (status c, assigned_staff_id c)) (complaints assigned_db) = [(Assigned, Some 5)]
   \<and> fst (PUT_complaint (Some 1) (no_change\<lparr>u_assigned_staff_id := Null\<rparr>) 50 assigned_db)
       = Inr [the_complaint\<lparr>status := Assigned, assigned_staff_id := None,
                assigned_at := Some 20, updated_at := 50\<rparr>]
   \<and> map (\<lambda>c. (status c, assigned_staff_id c))
         (complaints (snd (PUT_complaint (Some 1) (no_change\<lparr>u_assigned_staff_id := Null\<rparr>) 50
            assigned_db))) = [(Assigned, None)]
   \<and> fst (PUT_complaint (Some 1) (no_change\<lparr>u_status := Val ''assigned'', u_priority := Val 1\<rparr>) 60
            (snd (PUT_complaint (Some 1) (no_change\<lparr>u_assigned_staff_id := Null\<rparr>) 50 assigned_db)))
       = Inr [the_complaint\<lparr>status := Assigned, priority := 1, assigned_staff_id := None,
                assigned_at := Some 20, updated_at := 60\<rparr>]"
  by code_simp

text \<open>
  C8, as the route implements it. When the requested status is assigned, the complaint
  is in another status and has no staff, and the request supplies no staff, the update
  is refused with a validation error and nothing is written.
\<close>

theorem assigned_needs_staff:
  assumes "filter (\<lambda>c. c_id c = cid) (complaints d) = existing # rest"
    and "u_status body = Val ''assigned''"
    and "status existing \<noteq> Assigned"
    and "\<not> truthy_num (u_assigned_staff_id body)"
    and "\<not> truthy_id (assigned_staff_id existing)"
  shows "PUT_complaint (Some cid) body now d = (Inl MissingAssignment, d)
         \<and> snd (PUT_complaint_run (Some cid) body now d) = []"
proof -
  have "status_of_text ''assigned'' = Some Assigned" by code_simp
  then have "requested_status (u_status body) = Inr (Some Assigned)"
    using assms(2) by (simp add: requested_status_def)
  with assms show ?thesis
    by (simp add: PUT_complaint_def PUT_complaint_run_def final_state_def)
qed

theorem assigned_needs_staff_witness:
  "filter (\<lambda>c. c_id c = 1) (complaints created_db) = the_complaint # []
   \<and> u_status (no_change\<lparr>u_status := Val ''assigned''\<rparr>) = Val ''assigned''
   \<and> status the_complaint \<noteq> Assigned
   \<and> \<not> truthy_num (u_assigned_staff_id (no_change\<lparr>u_status := Val ''assigned''\<rparr>))
   \<and> \<not> truthy_id (assigned_staff_id the_complaint)
   \<and> PUT_complaint (Some 1) (no_change\<lparr>u_status := Val ''assigned''\<rparr>) 20 created_db
       = (Inl MissingAssignment, created_db)"
proof -
  have h1: "filter (\<lambda>c. c_id c = 1) (complaints created_db) = the_complaint # []" by code_simp
  have h2: "u_status (no_change\<lparr>u_status := Val ''assigned''\<rparr>) = Val ''assigned''" by simp
  have h3: "status the_complaint \<noteq> Assigned" by (simp add: the_complaint_def)
  have h4: "\<not> truthy_num (u_assigned_staff_id (no_change\<lparr>u_status := Val ''assigned''\<rparr>))"
    by (simp add: no_change_def)
  have h5: "\<not> truthy_id (assigned_staff_id the_complaint)" by (simp add: the_complaint_def)
  from assigned_needs_staff[OF h1 h2 h3 h4 h5, of 20] h1 h2 h3 h4 h5 show ?thesis by blast
qed

subsection \<open>The priority of a new complaint\<close>

text \<open>
  C9. A new complaint with priority 0 is not refused: \<open>priority || 3\<close> takes 0 for a
  missing priority, and the complaint is stored with priority 3. Priorities \<open>-1\<close> and 6
  are refused before any write, and a request without priority gets priority 3.
\<close>

theorem priority_zero_gets_default:
  "fst (POST_complaints (new_complaint\<lparr>cb_priority := Val 0\<rparr>) 10 complaints_db)
     = Inr (the_complaint\<lparr>priority := 3\<rparr>)
   \<and> map priority (complaints (snd (POST_complaints (new_complaint\<lparr>cb_priority := Val 0\<rparr>) 10
        complaints_db))) = [3]
   \<and> POST_complaints (new_complaint\<lparr>cb_priority := Val (- 1)\<rparr>) 10 complaints_db
       = (Inl InvalidPriority, complaints_db)
   \<and> POST_complaints (new_complaint\<lparr>cb_priority := Val 6\<rparr>) 10 complaints_db
       = (Inl InvalidPriority, complaints_db)
   \<and> fst (POST_complaints (new_complaint\<lparr>cb_priority := Undefined\<rparr>) 10 complaints_db)
       = Inr (the_complaint\<lparr>priority := 3\<rparr>)"
  by code_simp

end
